theory Spec2Isabelle
  imports Complex_Main
begin

section \<open>JavaScript numbers and values\<close>

text \<open>
  The pay calculators are JavaScript functions over numbers obtained from form strings.
  A JavaScript number is modelled as \<open>NaN\<close>, one of the two infinities, or a finite value
  \<open>Num r\<close> with \<open>r\<close> an exact real: rounding to binary64, overflow and the sign of zero
  are not modelled, while \<open>NaN\<close> and the infinities are, because the \<open>||\<close> defaults and the
  comparisons of the source depend on them. Exact addition is associative and exact
  products never overflow, unlike their binary64 counterparts; so a sum is stated below in
  the order in which the source adds its terms, and a property of the size of a result
  under explicit bounds on the inputs.
\<close>

datatype jsnum = NaN | PInf | NInf | Num real

text \<open>
  The values a trip property holds: the form collaborators store strings and booleans,
  a missing property reads as \<open>undefined\<close>. A string is a list of code units below
  \<open>U+0100\<close>.
\<close>

datatype jsval = JUndefined | JNull | JBool bool | JStr string

fun js_neg :: "jsnum \<Rightarrow> jsnum" where
  "js_neg NaN = NaN"
| "js_neg PInf = NInf"
| "js_neg NInf = PInf"
| "js_neg (Num a) = Num (- a)"

fun js_add :: "jsnum \<Rightarrow> jsnum \<Rightarrow> jsnum" where
  "js_add (Num a) (Num b) = Num (a + b)"
| "js_add NaN y = NaN"
| "js_add x NaN = NaN"
| "js_add PInf NInf = NaN"
| "js_add NInf PInf = NaN"
| "js_add PInf y = PInf"
| "js_add x PInf = PInf"
| "js_add NInf y = NInf"
| "js_add x NInf = NInf"

definition js_sub :: "jsnum \<Rightarrow> jsnum \<Rightarrow> jsnum" where
  "js_sub x y = js_add x (js_neg y)"

text \<open>The sign of a number that is not \<open>NaN\<close>: \<open>-1\<close>, \<open>0\<close> or \<open>1\<close>.\<close>

fun js_sign :: "jsnum \<Rightarrow> int" where
  "js_sign NaN = 0"
| "js_sign PInf = 1"
| "js_sign NInf = - 1"
| "js_sign (Num a) = (if a < 0 then - 1 else if a = 0 then 0 else 1)"

definition signed_inf :: "int \<Rightarrow> jsnum" where
  "signed_inf s = (if s = 0 then NaN else if 0 < s then PInf else NInf)"

fun js_mul :: "jsnum \<Rightarrow> jsnum \<Rightarrow> jsnum" where
  "js_mul (Num a) (Num b) = Num (a * b)"
| "js_mul NaN y = NaN"
| "js_mul x NaN = NaN"
| "js_mul x y = signed_inf (js_sign x * js_sign y)"

text \<open>Division; a zero divisor counts as \<open>+0\<close>.\<close>

fun js_div :: "jsnum \<Rightarrow> jsnum \<Rightarrow> jsnum" where
  "js_div (Num a) (Num b) = (if b = 0 then signed_inf (js_sign (Num a)) else Num (a / b))"
| "js_div NaN y = NaN"
| "js_div x NaN = NaN"
| "js_div (Num a) y = Num 0"
| "js_div x (Num b) = signed_inf (js_sign x * (if b < 0 then - 1 else 1))"
| "js_div x y = NaN"

text \<open>The comparison \<open>x > y\<close>.\<close>

fun js_gt :: "jsnum \<Rightarrow> jsnum \<Rightarrow> bool" where
  "js_gt (Num a) (Num b) = (b < a)"
| "js_gt NaN y = False"
| "js_gt x NaN = False"
| "js_gt NInf y = False"
| "js_gt x PInf = False"
| "js_gt PInf y = True"
| "js_gt x NInf = True"

text \<open>\<open>Math.min\<close> and \<open>Math.max\<close> of two numbers.\<close>

definition js_min :: "jsnum \<Rightarrow> jsnum \<Rightarrow> jsnum" where
  "js_min x y = (if x = NaN \<or> y = NaN then NaN else if js_gt x y then y else x)"

definition js_max :: "jsnum \<Rightarrow> jsnum \<Rightarrow> jsnum" where
  "js_max x y = (if x = NaN \<or> y = NaN then NaN else if js_gt y x then y else x)"

text \<open>Truthiness of a number, and \<open>x || d\<close> on numbers.\<close>

definition num_truthy :: "jsnum \<Rightarrow> bool" where
  "num_truthy x = (x \<noteq> NaN \<and> x \<noteq> Num 0)"

definition js_or :: "jsnum \<Rightarrow> jsnum \<Rightarrow> jsnum" where
  "js_or x d = (if num_truthy x then x else d)"

text \<open>Truthiness of a value, \<open>v || d\<close> on values, and \<open>ToString\<close>.\<close>

fun truthy :: "jsval \<Rightarrow> bool" where
  "truthy JUndefined = False"
| "truthy JNull = False"
| "truthy (JBool b) = b"
| "truthy (JStr s) = (s \<noteq> [])"

definition val_or :: "jsval \<Rightarrow> jsval \<Rightarrow> jsval" where
  "val_or v d = (if truthy v then v else d)"

fun ToString :: "jsval \<Rightarrow> string" where
  "ToString JUndefined = ''undefined''"
| "ToString JNull = ''null''"
| "ToString (JBool b) = (if b then ''true'' else ''false'')"
| "ToString (JStr s) = s"

text \<open>\<open>ToNumber\<close> of a property that is a number or \<open>undefined\<close> (\<open>None\<close>).\<close>

fun ToNumber :: "jsnum option \<Rightarrow> jsnum" where
  "ToNumber None = NaN"
| "ToNumber (Some x) = x"

section \<open>\<open>parseInt\<close> and \<open>parseFloat\<close>\<close>

text \<open>White space and line terminators below \<open>U+0100\<close>: TAB, LF, VT, FF, CR, SP, NBSP.\<close>

definition isWhiteSpace :: "char \<Rightarrow> bool" where
  "isWhiteSpace c = ((of_char c :: nat) \<in> {9, 10, 11, 12, 13, 32, 160})"

definition digitValue :: "char \<Rightarrow> nat option" where
  "digitValue c =
    (let n = (of_char c :: nat)
     in if 48 \<le> n \<and> n \<le> 57 then Some (n - 48)
        else if 97 \<le> n \<and> n \<le> 122 then Some (n - 87)
        else if 65 \<le> n \<and> n \<le> 90 then Some (n - 55)
        else None)"

definition isRadixDigit :: "nat \<Rightarrow> char \<Rightarrow> bool" where
  "isRadixDigit R c = (case digitValue c of None \<Rightarrow> False | Some d \<Rightarrow> d < R)"

definition digitsValue :: "nat \<Rightarrow> string \<Rightarrow> nat" where
  "digitsValue R Z = foldl (\<lambda>acc c. acc * R + (case digitValue c of None \<Rightarrow> 0 | Some d \<Rightarrow> d)) 0 Z"

definition isSign :: "string \<Rightarrow> bool" where
  "isSign S = (take 1 S = ''+'' \<or> take 1 S = ''-'')"

text \<open>
  \<open>parseInt(string, radix)\<close> of ECMA-262; \<open>radix\<close> is \<open>None\<close> when the call passes no
  radix. The result is the exact integer the digits denote.
\<close>

definition parseInt :: "jsval \<Rightarrow> nat option \<Rightarrow> jsnum" where
  "parseInt string radix =
    (let S = dropWhile isWhiteSpace (ToString string);
         sign = (if take 1 S = ''-'' then - 1 else 1 :: real);
         S1 = (if isSign S then drop 1 S else S);
         R = (case radix of None \<Rightarrow> 0 | Some r \<Rightarrow> r)
     in if R \<noteq> 0 \<and> (R < 2 \<or> 36 < R) then NaN
        else
          let stripPrefix = (R = 0 \<or> R = 16);
              hex = (stripPrefix \<and> (take 2 S1 = ''0x'' \<or> take 2 S1 = ''0X''));
              S2 = (if hex then drop 2 S1 else S1);
              R1 = (if hex then 16 else if R = 0 then 10 else R);
              Z = takeWhile (isRadixDigit R1) S2
          in if Z = [] then NaN else Num (sign * real (digitsValue R1 Z)))"

text \<open>The exponent part \<open>e\<close>, \<open>e+\<close> or \<open>e-\<close> and digits, when the rest starts with one.\<close>

definition exponentPart :: "string \<Rightarrow> int" where
  "exponentPart r =
    (if take 1 r = ''e'' \<or> take 1 r = ''E'' then
       let r1 = drop 1 r;
           r2 = (if isSign r1 then drop 1 r1 else r1);
           ds = takeWhile (isRadixDigit 10) r2
       in if ds = [] then 0
          else if take 1 r1 = ''-'' then - int (digitsValue 10 ds)
          else int (digitsValue 10 ds)
     else 0)"

definition pow10 :: "int \<Rightarrow> real" where
  "pow10 e = (if 0 \<le> e then 10 ^ nat e else 1 / 10 ^ nat (- e))"

text \<open>
  \<open>parseFloat(string)\<close>: the value of the longest prefix of the trimmed string that is a
  \<open>StrDecimalLiteral\<close>, \<open>NaN\<close> when there is none.
\<close>

definition parseFloat :: "jsval \<Rightarrow> jsnum" where
  "parseFloat string =
    (let S = dropWhile isWhiteSpace (ToString string);
         neg = (take 1 S = ''-'');
         U = (if isSign S then drop 1 S else S)
     in if take 8 U = ''Infinity'' then (if neg then NInf else PInf)
        else
          let ip = takeWhile (isRadixDigit 10) U;
              r1 = dropWhile (isRadixDigit 10) U;
              dot = (take 1 r1 = ''.'');
              fp = (if dot then takeWhile (isRadixDigit 10) (drop 1 r1) else []);
              r2 = (if dot then dropWhile (isRadixDigit 10) (drop 1 r1) else r1)
          in if ip = [] \<and> fp = [] then NaN
             else Num ((if neg then - 1 else 1)
                       * (real (digitsValue 10 ip) + real (digitsValue 10 fp) / 10 ^ length fp)
                       * pow10 (exponentPart r2)))"

section \<open>Objects and rate tables\<close>

text \<open>
  A trip is a JavaScript object: a map from property names to values, where a property
  that is absent reads as \<open>undefined\<close>. \<open>object\<close> builds one from its properties.
\<close>

type_synonym trip = "string \<Rightarrow> jsval"

definition object :: "(string \<times> jsval) list \<Rightarrow> trip" where
  "object ps = (\<lambda>k. case map_of ps k of None \<Rightarrow> JUndefined | Some v \<Rightarrow> v)"

text \<open>
  Reading \<open>table[key]\<close> from an object literal gives the entry stored under that key, or a
  member inherited from \<open>Object.prototype\<close> (a function, or the prototype itself for
  \<open>__proto__\<close>: truthy, with no property of the table's entries), or \<open>undefined\<close>.
\<close>

datatype 'a member = Own 'a | Inherited | Absent

definition objectPrototypeKeys :: "string list" where
  "objectPrototypeKeys =
    [''constructor'', ''hasOwnProperty'', ''isPrototypeOf'', ''propertyIsEnumerable'',
     ''toLocaleString'', ''toString'', ''valueOf'', ''__proto__'', ''__defineGetter__'',
     ''__defineSetter__'', ''__lookupGetter__'', ''__lookupSetter__'']"

definition js_get :: "(string \<times> 'a) list \<Rightarrow> jsval \<Rightarrow> 'a member" where
  "js_get table key =
    (case map_of table (ToString key) of
       Some v \<Rightarrow> Own v
     | None \<Rightarrow> if ToString key \<in> set objectPrototypeKeys then Inherited else Absent)"

text \<open>\<open>p || q\<close> on looked-up members: only \<open>undefined\<close> is falsy.\<close>

definition prop_or :: "'a member \<Rightarrow> 'a member \<Rightarrow> 'a member" where
  "prop_or p q = (case p of Absent \<Rightarrow> q | _ \<Rightarrow> p)"

text \<open>
  The pay table, as pairs \<open>(baseRate, flagRate)\<close>. \<open>script.js\<close> and \<open>config.js\<close> call it
  \<open>PAY_RATES\<close>, the second monolithic script \<open>masterPayData\<close>; the entries are the same.
\<close>

definition PAY_RATES :: "(string \<times> (real \<times> real)) list" where
  "PAY_RATES =
    [(''Year 1'', (2888 / 100, 4332 / 100)),
     (''Year 2'', (3064 / 100, 4596 / 100)),
     (''Year 3'', (3259 / 100, 4889 / 100)),
     (''Year 4'', (3471 / 100, 5207 / 100)),
     (''Year 5'', (3825 / 100, 5738 / 100)),
     (''Year 6'', (4330 / 100, 6495 / 100)),
     (''Year 7'', (4841 / 100, 7262 / 100)),
     (''Year 8'', (4996 / 100, 7494 / 100)),
     (''Year 9'', (5134 / 100, 7701 / 100)),
     (''Year 10'', (5326 / 100, 7989 / 100)),
     (''Year 11'', (5473 / 100, 8210 / 100)),
     (''Year 12'', (5733 / 100, 8600 / 100)),
     (''Year 13+'', (6711 / 100, 10067 / 100))]"

definition masterPayData :: "(string \<times> (real \<times> real)) list" where
  "masterPayData = PAY_RATES"

text \<open>\<open>entry.baseRate\<close> and \<open>entry.flagRate\<close> of a looked-up member; \<open>None\<close> is \<open>undefined\<close>.\<close>

fun baseRate_of :: "(real \<times> real) member \<Rightarrow> jsnum option" where
  "baseRate_of (Own e) = Some (Num (fst e))"
| "baseRate_of Inherited = None"
| "baseRate_of Absent = None"

fun flagRate_of :: "(real \<times> real) member \<Rightarrow> jsnum option" where
  "flagRate_of (Own e) = Some (Num (snd e))"
| "flagRate_of Inherited = None"
| "flagRate_of Absent = None"

text \<open>Per-diem rates: \<open>CONSTANTS\<close> of \<open>script.js\<close>.\<close>

definition DOMESTIC_PER_DIEM :: real where
  "DOMESTIC_PER_DIEM = 240 / 100"

definition INTERNATIONAL_PER_DIEM :: real where
  "INTERNATIONAL_PER_DIEM = 290 / 100"

text \<open>Per-diem rates: \<open>constants\<close> of the second monolithic script, \<open>APP_CONFIG\<close> of \<open>config.js\<close>.\<close>

definition DOMESTIC_PER_DIEM_RATE :: real where
  "DOMESTIC_PER_DIEM_RATE = 240 / 100"

definition INTERNATIONAL_PER_DIEM_RATE :: real where
  "INTERNATIONAL_PER_DIEM_RATE = 290 / 100"

text \<open>The other tables of \<open>config.js\<close>; a purser entry is the pair \<open>(usRate, nonUsRate)\<close>.\<close>

definition PURSER_RATES :: "(string \<times> (real \<times> real)) list" where
  "PURSER_RATES =
    [(''Narrow1'', (250 / 100, 300 / 100)),
     (''Narrow2'', (300 / 100, 350 / 100)),
     (''Wide'', (400 / 100, 450 / 100))]"

fun usRate_of :: "(real \<times> real) member \<Rightarrow> jsnum option" where
  "usRate_of (Own e) = Some (Num (fst e))"
| "usRate_of Inherited = None"
| "usRate_of Absent = None"

fun nonUsRate_of :: "(real \<times> real) member \<Rightarrow> jsnum option" where
  "nonUsRate_of (Own e) = Some (Num (snd e))"
| "nonUsRate_of Inherited = None"
| "nonUsRate_of Absent = None"

definition GALLEY_RATE :: real where
  "GALLEY_RATE = 250 / 100"

definition LANGUAGE_RATE :: real where
  "LANGUAGE_RATE = 300 / 100"

definition HOLIDAY_RATE :: real where
  "HOLIDAY_RATE = 15 / 10"

definition FLAG_RATES_white :: real where
  "FLAG_RATES_white = 125 / 100"

definition FLAG_RATES_purple :: "(string \<times> real) list" where
  "FLAG_RATES_purple = [(''1.5'', 15 / 10), (''2'', 2), (''2.5'', 25 / 10), (''3'', 3)]"

section \<open>The pay breakdown\<close>

text \<open>
  The object returned by the two monolithic \<open>calculateTripPay\<close> functions. \<open>baseRate\<close> and
  \<open>flagRate\<close> are \<open>None\<close> when the property is \<open>undefined\<close> or not set.
\<close>

record calculation =
  baseRate :: "jsnum option"
  flagRate :: "jsnum option"
  effectiveRate :: jsnum
  basePay :: jsnum
  galleyPay :: jsnum
  purserPay :: jsnum
  intlOverridePay :: jsnum
  languagePay :: jsnum
  perDiem :: jsnum
  holidayPay :: jsnum
  totalGrossPay :: jsnum
  netPayEstimate :: jsnum
  hourlyValue :: jsnum
  perDayValue :: jsnum

datatype js_error = TypeError

section \<open>\<open>calculateTripPay\<close> of \<open>script.js\<close>\<close>

text \<open>\<open>utils.parseHM\<close> of \<open>script.js\<close>: \<open>parseInt\<close> without a radix.\<close>

definition parseHM :: "jsval \<Rightarrow> jsval \<Rightarrow> jsnum" where
  "parseHM hours minutes =
    (let h = js_or (parseInt hours None) (Num 0);
         m = js_or (parseInt minutes None) (Num 0)
     in js_add h (js_div m (Num 60)))"

text \<open>The local table \<open>rates\<close> of purser rates, \<open>[usRate, nonUSRate]\<close> per aircraft type.\<close>

definition rates :: "(string \<times> (real \<times> real)) list" where
  "rates = [(''Narrow1'', (1, 2)), (''Narrow2'', (2, 3)), (''Wide'', (3, 4))]"

text \<open>
  The statement \<open>if (tripData.purserPay === 'Yes') { ... }\<close> of the \<open>try\<close> block: the
  value it leaves in \<open>payComponents.purserPay\<close>, or the error it throws. It is the one
  statement that can throw on a trip object: the array destructuring fails when the
  looked-up member is not an array.
\<close>

definition purserPayStatement :: "trip \<Rightarrow> js_error + jsnum" where
  "purserPayStatement tripData =
    (if tripData ''purserPay'' = JStr ''Yes'' then
       let purserUS = js_or (parseFloat (tripData ''purserUSHours'')) (Num 0);
           purserNonUS = js_or (parseFloat (tripData ''purserNonUSHours'')) (Num 0)
       in case prop_or (js_get rates (tripData ''aircraftType'')) (js_get rates (JStr ''Narrow1'')) of
            Own (usRate, nonUSRate) \<Rightarrow>
              Inr (js_add (js_mul purserUS (Num usRate)) (js_mul purserNonUS (Num nonUSRate)))
          | Inherited \<Rightarrow> Inl TypeError
          | Absent \<Rightarrow> Inl TypeError
     else Inr (Num 0))"

text \<open>The \<open>try\<close> block.\<close>

definition calculateTripPay_try :: "trip \<Rightarrow> js_error + calculation" where
  "calculateTripPay_try tripData =
    (let payYear = val_or (tripData ''payYear'') (JStr ''Year 1'');
         payData = prop_or (js_get PAY_RATES payYear) (js_get PAY_RATES (JStr ''Year 1''));
         creditedHours = parseHM (tripData ''creditedHoursHours'') (tripData ''creditedHoursMinutes'');
         dutyHours = parseHM (tripData ''tafbHours'') (tripData ''tafbMinutes'');
         tripLength = js_or (parseInt (tripData ''tripLength'') None) (Num 1);
         baseRate = baseRate_of payData;
         flagMultiplier =
           js_mul (if truthy (tripData ''whiteFlag'') then Num (15 / 10) else Num 1)
                  (if truthy (tripData ''purpleFlag'')
                   then js_or (parseFloat (tripData ''purpleFlagPremium'')) (Num (15 / 10))
                   else Num 1);
         effectiveRate = js_mul (ToNumber baseRate) flagMultiplier;
         basePay = js_mul creditedHours effectiveRate;
         galleyPay =
           (if tripData ''galleyPay'' = JStr ''Yes''
            then parseHM (tripData ''galleyHoursHours'') (tripData ''galleyHoursMinutes'')
            else Num 0);
         perDiem =
           js_mul dutyHours
             (if tripData ''intlOverride'' = JStr ''Yes''
              then Num INTERNATIONAL_PER_DIEM else Num DOMESTIC_PER_DIEM);
         languagePay =
           (if tripData ''languagePay'' = JStr ''Yes''
            then js_mul creditedHours (Num (250 / 100)) else Num 0);
         intlOverridePay =
           (if tripData ''intlPayOverride'' = JStr ''Yes''
            then js_mul creditedHours (Num 2) else Num 0)
     in case purserPayStatement tripData of
          Inl e \<Rightarrow> Inl e
        | Inr amount \<Rightarrow>
            let purserPay = amount;
                holidayPay =
                  (if tripData ''holidayPay'' = JStr ''Yes'' \<and> js_gt dutyHours (Num 0) then
                     let holidayHours = js_or (parseFloat (tripData ''holidayHours'')) (Num 0)
                     in js_mul (js_div (js_mul effectiveRate creditedHours) dutyHours) holidayHours
                   else Num 0);
                totalGrossPay =
                  foldl js_add (Num 0)
                    [basePay, galleyPay, purserPay, perDiem, languagePay, intlOverridePay, holidayPay];
                retirementDeduction =
                  js_mul totalGrossPay
                    (js_div (parseFloat (tripData ''retirementPercentage'')) (Num 100));
                netPayEstimate =
                  js_mul (js_sub totalGrossPay retirementDeduction)
                    (js_sub (Num 1) (js_div (parseFloat (tripData ''taxRate'')) (Num 100)))
            in Inr \<lparr> baseRate = baseRate, flagRate = None, effectiveRate = effectiveRate,
                     basePay = basePay, galleyPay = galleyPay, purserPay = purserPay,
                     intlOverridePay = intlOverridePay, languagePay = languagePay,
                     perDiem = perDiem, holidayPay = holidayPay,
                     totalGrossPay = totalGrossPay, netPayEstimate = netPayEstimate,
                     hourlyValue =
                       (if js_gt creditedHours (Num 0)
                        then js_div totalGrossPay creditedHours else Num 0),
                     perDayValue =
                       (if js_gt tripLength (Num 0)
                        then js_div totalGrossPay tripLength else Num 0) \<rparr>)"

text \<open>The object literal of the \<open>catch\<close> branch.\<close>

definition catchCalculation :: calculation where
  "catchCalculation =
    \<lparr> baseRate = Some (Num 0), flagRate = None, effectiveRate = Num 0, basePay = Num 0,
      galleyPay = Num 0, purserPay = Num 0, intlOverridePay = Num 0, languagePay = Num 0,
      perDiem = Num 0, holidayPay = Num 0, totalGrossPay = Num 0, netPayEstimate = Num 0,
      hourlyValue = Num 0, perDayValue = Num 0 \<rparr>"

definition calculateTripPay_script :: "trip \<Rightarrow> calculation" where
  "calculateTripPay_script tripData =
    (case calculateTripPay_try tripData of
       Inr result \<Rightarrow> result
     | Inl error \<Rightarrow> catchCalculation)"

section \<open>\<open>calculateTripPay\<close> of the second monolithic script\<close>

definition createDefaultCalculation :: calculation where
  "createDefaultCalculation =
    \<lparr> baseRate = Some (Num 0), flagRate = Some (Num 0), effectiveRate = Num 0,
      basePay = Num 0, galleyPay = Num 0, purserPay = Num 0, intlOverridePay = Num 0,
      languagePay = Num 0, perDiem = Num 0, holidayPay = Num 0, totalGrossPay = Num 0,
      netPayEstimate = Num 0, hourlyValue = Num 0, perDayValue = Num 0 \<rparr>"

text \<open>
  The argument is a trip object, so the first guard (\<open>!tripData\<close> or not an object) does
  not fire, and no statement of the \<open>try\<close> block throws.
\<close>

definition calculateTripPay_monolith :: "trip \<Rightarrow> calculation" where
  "calculateTripPay_monolith tripData =
    (let payYear = val_or (tripData ''payYear'') (JStr ''Year 1'');
         whiteFlagEnabled =
           (tripData ''whiteFlag'' = JBool True \<or> tripData ''whiteFlag'' = JStr ''Yes'');
         purpleFlagEnabled =
           (tripData ''purpleFlag'' = JBool True \<or> tripData ''purpleFlag'' = JStr ''Yes'');
         purpleFlagPremium = js_or (parseFloat (tripData ''purpleFlagPremium'')) (Num (15 / 10));
         m0 = Num 1;
         m1 = (if whiteFlagEnabled then js_mul m0 (Num (15 / 10)) else m0);
         flagPremiumMultiplier = (if purpleFlagEnabled then js_mul m1 purpleFlagPremium else m1);
         chH = js_or (parseInt (tripData ''creditedHoursHours'') (Some 10)) (Num 0);
         chM = js_or (parseInt (tripData ''creditedHoursMinutes'') (Some 10)) (Num 0);
         creditedHours = js_add chH (js_div chM (Num 60));
         thH = js_or (parseInt (tripData ''tafbHours'') (Some 10)) (Num 0);
         thM = js_or (parseInt (tripData ''tafbMinutes'') (Some 10)) (Num 0);
         dutyHours = js_add thH (js_div thM (Num 60));
         tripLength = js_or (parseInt (tripData ''tripLength'') None) (Num 1);
         hasGalleyPay = (tripData ''galleyPay'' = JStr ''Yes'');
         hasPurserPay = (tripData ''purserPay'' = JStr ''Yes'');
         hasIntlOverride = (tripData ''intlOverride'' = JStr ''Yes'');
         hasIntlPayOverride = (tripData ''intlPayOverride'' = JStr ''Yes'');
         hasLanguagePay = (tripData ''languagePay'' = JStr ''Yes'');
         hasHolidayPay = (tripData ''holidayPay'' = JStr ''Yes'');
         ghH = (if hasGalleyPay
                then js_or (parseInt (tripData ''galleyHoursHours'') (Some 10)) (Num 0) else Num 0);
         ghM = (if hasGalleyPay
                then js_or (parseInt (tripData ''galleyHoursMinutes'') (Some 10)) (Num 0) else Num 0);
         galleyHours = js_add ghH (js_div ghM (Num 60));
         purserUSHours =
           (if hasPurserPay then js_or (parseFloat (tripData ''purserUSHours'')) (Num 0) else Num 0);
         purserNonUSHours =
           (if hasPurserPay then js_or (parseFloat (tripData ''purserNonUSHours'')) (Num 0) else Num 0);
         holidayHours =
           (if hasHolidayPay then js_or (parseFloat (tripData ''holidayHours'')) (Num 0) else Num 0);
         aircraftType = val_or (tripData ''aircraftType'') (JStr ''Narrow1'');
         retirementPercentage =
           js_max (Num 0)
             (js_min (Num 100) (js_or (parseFloat (tripData ''retirementPercentage'')) (Num 0)));
         taxRate =
           js_max (Num 0) (js_min (Num 100) (js_or (parseFloat (tripData ''taxRate'')) (Num 0)))
     in if js_get masterPayData payYear = Absent then createDefaultCalculation
        else
          let baseRate = baseRate_of (js_get masterPayData payYear);
              effectiveRate = js_mul (ToNumber baseRate) flagPremiumMultiplier;
              perDiemRate =
                (if hasIntlOverride
                 then Num INTERNATIONAL_PER_DIEM_RATE else Num DOMESTIC_PER_DIEM_RATE);
              basePay = js_mul creditedHours effectiveRate;
              galleyPay = (if hasGalleyPay then js_mul galleyHours (Num 1) else Num 0);
              purserPay =
                (if hasPurserPay then
                   if aircraftType = JStr ''Narrow1'' then
                     js_add (js_mul purserUSHours (Num 1)) (js_mul purserNonUSHours (Num 2))
                   else if aircraftType = JStr ''Narrow2'' then
                     js_add (js_mul purserUSHours (Num 2)) (js_mul purserNonUSHours (Num 3))
                   else if aircraftType = JStr ''Wide'' then
                     js_add (js_mul purserUSHours (Num 3)) (js_mul purserNonUSHours (Num 4))
                   else
                     js_add (js_mul purserUSHours (Num 1)) (js_mul purserNonUSHours (Num 2))
                 else Num 0);
              intlOverridePay = (if hasIntlPayOverride then js_mul creditedHours (Num 2) else Num 0);
              languagePay =
                (if hasLanguagePay then js_mul creditedHours (Num (250 / 100)) else Num 0);
              perDiem = js_mul dutyHours perDiemRate;
              holidayPay =
                (if hasHolidayPay \<and> js_gt dutyHours (Num 0)
                 then js_mul (js_div (js_mul effectiveRate creditedHours) dutyHours) holidayHours
                 else Num 0);
              totalGrossPay =
                js_add (js_add (js_add (js_add (js_add (js_add basePay galleyPay) purserPay)
                  intlOverridePay) languagePay) perDiem) holidayPay;
              retirementDeduction = js_mul totalGrossPay (js_div retirementPercentage (Num 100));
              netBeforeTax = js_sub totalGrossPay retirementDeduction;
              netPayEstimate = js_mul netBeforeTax (js_sub (Num 1) (js_div taxRate (Num 100)));
              hourlyValue =
                (if js_gt creditedHours (Num 0) then js_div totalGrossPay creditedHours else Num 0);
              perDayValue =
                (if js_gt tripLength (Num 0) then js_div totalGrossPay tripLength else Num 0)
          in \<lparr> baseRate = baseRate, flagRate = Some (Num 0), effectiveRate = effectiveRate,
               basePay = basePay, galleyPay = galleyPay, purserPay = purserPay,
               intlOverridePay = intlOverridePay, languagePay = languagePay, perDiem = perDiem,
               holidayPay = holidayPay, totalGrossPay = totalGrossPay,
               netPayEstimate = netPayEstimate, hourlyValue = hourlyValue,
               perDayValue = perDayValue \<rparr>)"

section \<open>\<open>calculateTripPay\<close> of \<open>trips.js\<close>\<close>

text \<open>
  The trip-card calculator returns display strings: \<open>format(v)\<close> for an amount \<open>v\<close>, or
  the placeholder \<open>'--'\<close>. \<open>Formatted v\<close> stands for the string made from \<open>v\<close> (with
  its \<open>/hr\<close> or \<open>/day\<close> suffix, where the source appends one). \<open>format\<close> is
  \<open>formatCurrency\<close> of \<open>utils.js\<close>: it rounds \<open>v\<close> to cents and shows \<open>'$0.00'\<close> when
  \<open>v\<close> is not finite, so amounts that differ can be shown by the same string.
  \<open>Formatted v\<close> records the amount that was passed to \<open>format\<close>, not the rounded
  number that the string shows.
\<close>

datatype shown = Dashes | Formatted jsnum

record tripCardPay =
  basePay_str :: shown
  perDiem_str :: shown
  whiteFlagPay_str :: shown
  purpleFlagPay_str :: shown
  galleyPay_str :: shown
  purserPay_str :: shown
  languagePay_str :: shown
  holidayPay_str :: shown
  intlOverridePay_str :: shown
  grossPay_str :: shown
  netPayEstimate_str :: shown
  hourlyValue_str :: shown
  dailyValue_str :: shown

text \<open>
  The amount that was passed to \<open>format\<close> for a display string; the placeholder is shown
  for a component whose amount is 0 because its flag is falsy.
\<close>

fun amount :: "shown \<Rightarrow> jsnum" where
  "amount Dashes = Num 0"
| "amount (Formatted v) = v"

text \<open>\<open>table[key]\<close> as an operand of \<open>-\<close> or \<open>*\<close> for a table of numbers.\<close>

fun number_of :: "real member \<Rightarrow> jsnum" where
  "number_of (Own v) = Num v"
| "number_of Inherited = NaN"
| "number_of Absent = NaN"

text \<open>\<open>config.js\<close> is loaded, so \<open>typeof PAY_RATES !== 'undefined'\<close> holds.\<close>

definition calculateTripPay_trips :: "trip \<Rightarrow> tripCardPay" where
  "calculateTripPay_trips trip =
    (let payYear = val_or (trip ''payYear'') (JStr ''Year 1'');
         baseRate =
           (if js_get PAY_RATES payYear \<noteq> Absent
            then ToNumber (baseRate_of (js_get PAY_RATES payYear)) else Num 0);
         flagRate =
           (if js_get PAY_RATES payYear \<noteq> Absent
            then ToNumber (flagRate_of (js_get PAY_RATES payYear)) else Num 0);
         creditedHours =
           js_add (js_or (parseInt (trip ''creditedHoursHours'') (Some 10)) (Num 0))
                  (js_div (js_or (parseInt (trip ''creditedHoursMinutes'') (Some 10)) (Num 0)) (Num 60));
         tafbHours =
           js_add (js_or (parseInt (trip ''tafbHours'') (Some 10)) (Num 0))
                  (js_div (js_or (parseInt (trip ''tafbMinutes'') (Some 10)) (Num 0)) (Num 60));
         tripLength = js_or (parseInt (trip ''tripLength'') (Some 10)) (Num 1);
         whiteFlagPay =
           (if truthy (trip ''whiteFlag'')
            then js_mul (js_mul creditedHours baseRate) (js_sub (Num FLAG_RATES_white) (Num 1))
            else Num 0);
         purpleFlagPay =
           (if truthy (trip ''purpleFlag'') \<and> truthy (trip ''purpleFlagPremium'')
               \<and> js_get FLAG_RATES_purple (trip ''purpleFlagPremium'') \<noteq> Absent
            then js_mul (js_mul creditedHours baseRate)
                   (js_sub (number_of (js_get FLAG_RATES_purple (trip ''purpleFlagPremium''))) (Num 1))
            else Num 0);
         galleyHours =
           js_add (js_or (parseInt (trip ''galleyHoursHours'') (Some 10)) (Num 0))
                  (js_div (js_or (parseInt (trip ''galleyHoursMinutes'') (Some 10)) (Num 0)) (Num 60));
         galleyPay = (if truthy (trip ''galleyPay'') then js_mul galleyHours (Num GALLEY_RATE) else Num 0);
         purserPay =
           (if truthy (trip ''purserPay'') \<and> truthy (trip ''aircraftType'') then
              let usHours = js_or (parseFloat (trip ''purserUsHours'')) (Num 0);
                  nonUsHours = js_or (parseFloat (trip ''purserNonUsHours'')) (Num 0);
                  purserRates = prop_or (js_get PURSER_RATES (trip ''aircraftType'')) (Own (0, 0))
              in js_add (js_mul usHours (ToNumber (usRate_of purserRates)))
                        (js_mul nonUsHours (ToNumber (nonUsRate_of purserRates)))
            else Num 0);
         languagePay =
           (if truthy (trip ''languagePay'') then js_mul creditedHours (Num LANGUAGE_RATE) else Num 0);
         holidayHours = js_or (parseFloat (trip ''holidayHours'')) (Num 0);
         holidayPay =
           (if truthy (trip ''holidayPay'')
            then js_mul (js_mul holidayHours baseRate) (js_sub (Num HOLIDAY_RATE) (Num 1))
            else Num 0);
         intlOverridePay =
           (if truthy (trip ''intlPayOverride'')
            then js_mul creditedHours (js_sub flagRate baseRate) else Num 0);
         perDiemRate =
           (if truthy (trip ''intlOverride'')
            then Num INTERNATIONAL_PER_DIEM_RATE else Num DOMESTIC_PER_DIEM_RATE);
         perDiem = js_mul tafbHours perDiemRate;
         basePay = js_mul creditedHours baseRate;
         grossPay =
           js_add (js_add (js_add (js_add (js_add (js_add (js_add (js_add basePay perDiem)
             whiteFlagPay) purpleFlagPay) galleyPay) purserPay) languagePay) holidayPay)
             intlOverridePay;
         retirementPct = js_or (parseFloat (trip ''retirementPercentage'')) (Num 0);
         taxPct = js_or (parseFloat (trip ''taxRate'')) (Num 0);
         n0 = grossPay;
         n1 = (if js_gt retirementPct (Num 0)
               then js_sub n0 (js_mul grossPay (js_div retirementPct (Num 100))) else n0);
         netPayEstimate =
           (if js_gt taxPct (Num 0)
            then js_sub n1 (js_mul grossPay (js_div taxPct (Num 100))) else n1);
         hourlyValue =
           (if js_gt creditedHours (Num 0) then js_div grossPay creditedHours else Num 0);
         dailyValue = (if js_gt tripLength (Num 0) then js_div grossPay tripLength else Num 0)
     in \<lparr> basePay_str = Formatted basePay,
          perDiem_str = Formatted perDiem,
          whiteFlagPay_str = (if truthy (trip ''whiteFlag'') then Formatted whiteFlagPay else Dashes),
          purpleFlagPay_str = (if truthy (trip ''purpleFlag'') then Formatted purpleFlagPay else Dashes),
          galleyPay_str = (if truthy (trip ''galleyPay'') then Formatted galleyPay else Dashes),
          purserPay_str = (if truthy (trip ''purserPay'') then Formatted purserPay else Dashes),
          languagePay_str = (if truthy (trip ''languagePay'') then Formatted languagePay else Dashes),
          holidayPay_str = (if truthy (trip ''holidayPay'') then Formatted holidayPay else Dashes),
          intlOverridePay_str =
            (if truthy (trip ''intlPayOverride'') then Formatted intlOverridePay else Dashes),
          grossPay_str = Formatted grossPay,
          netPayEstimate_str = Formatted netPayEstimate,
          hourlyValue_str = Formatted hourlyValue,
          dailyValue_str = Formatted dailyValue \<rparr>)"

section \<open>The best-value trip of \<open>renderTrips\<close>\<close>

text \<open>
  Both monolithic scripts select the best-value trip with the same loop over
  \<open>state.trips\<close>, each calling its own \<open>calculateTripPay\<close> (the parameter \<open>calc\<close>):
  the loop state is \<open>(bestValueTripId, bestMetric)\<close>, initially \<open>(null, -Infinity)\<close>.
\<close>

definition bestValueStep ::
  "(trip \<Rightarrow> calculation) \<Rightarrow> jsval \<times> jsnum \<Rightarrow> trip \<Rightarrow> jsval \<times> jsnum" where
  "bestValueStep calc st trip =
    (if js_gt (perDayValue (calc trip)) (snd st)
     then (trip ''id'', perDayValue (calc trip)) else st)"

definition bestValueTripId :: "(trip \<Rightarrow> calculation) \<Rightarrow> trip list \<Rightarrow> jsval" where
  "bestValueTripId calc trips = fst (foldl (bestValueStep calc) (JNull, NInf) trips)"

text \<open>The condition under which a trip's card shows the Best Value badge.\<close>

definition bestValueBadge :: "(trip \<Rightarrow> calculation) \<Rightarrow> trip list \<Rightarrow> trip \<Rightarrow> bool" where
  "bestValueBadge calc trips trip =
    (trip ''id'' = bestValueTripId calc trips \<and> 1 < length trips)"

section \<open>Vocabulary of the properties\<close>

text \<open>The value of the local \<open>tripLength\<close> of both monolithic calculators.\<close>

definition tripLength_of :: "trip \<Rightarrow> jsnum" where
  "tripLength_of tripData = js_or (parseInt (tripData ''tripLength'') None) (Num 1)"

text \<open>A parse result that is not negative: a finite number from 0 up, or no number at all.\<close>

fun nonNegativeOrNaN :: "jsnum \<Rightarrow> bool" where
  "nonNegativeOrNaN NaN = True"
| "nonNegativeOrNaN (Num r) = (0 \<le> r)"
| "nonNegativeOrNaN PInf = False"
| "nonNegativeOrNaN NInf = False"

text \<open>
  Hours and minutes to decimal hours with \<open>parseInt(_, 10)\<close>, as the second monolithic
  script and \<open>trips.js\<close> write it inline for the locals \<open>creditedHours\<close>, \<open>dutyHours\<close>
  (\<open>tafbHours\<close>) and \<open>galleyHours\<close>.
\<close>

definition parseHM_radix10 :: "jsval \<Rightarrow> jsval \<Rightarrow> jsnum" where
  "parseHM_radix10 hoursStr minutesStr =
    js_add (js_or (parseInt hoursStr (Some 10)) (Num 0))
           (js_div (js_or (parseInt minutesStr (Some 10)) (Num 0)) (Num 60))"

text \<open>A finite number from 0 up.\<close>

fun nonNegative :: "jsnum \<Rightarrow> bool" where
  "nonNegative (Num r) = (0 \<le> r)"
| "nonNegative NaN = False"
| "nonNegative PInf = False"
| "nonNegative NInf = False"

definition nonNegativeComponents :: "calculation \<Rightarrow> bool" where
  "nonNegativeComponents c =
    (nonNegative (basePay c) \<and> nonNegative (galleyPay c) \<and> nonNegative (purserPay c)
     \<and> nonNegative (intlOverridePay c) \<and> nonNegative (languagePay c)
     \<and> nonNegative (perDiem c) \<and> nonNegative (holidayPay c))"

text \<open>A finite number from 0 up to a bound.\<close>

fun withinBound :: "real \<Rightarrow> jsnum \<Rightarrow> bool" where
  "withinBound b (Num r) = (0 \<le> r \<and> r \<le> b)"
| "withinBound b NaN = False"
| "withinBound b PInf = False"
| "withinBound b NInf = False"

definition componentsWithin :: "real \<Rightarrow> calculation \<Rightarrow> bool" where
  "componentsWithin b c =
    (withinBound b (basePay c) \<and> withinBound b (galleyPay c) \<and> withinBound b (purserPay c)
     \<and> withinBound b (intlOverridePay c) \<and> withinBound b (languagePay c)
     \<and> withinBound b (perDiem c) \<and> withinBound b (holidayPay c))"

text \<open>A parse result that is a finite number from 0 up to a bound, or no number at all.\<close>

fun withinBoundOrNaN :: "real \<Rightarrow> jsnum \<Rightarrow> bool" where
  "withinBoundOrNaN b NaN = True"
| "withinBoundOrNaN b (Num r) = (0 \<le> r \<and> r \<le> b)"
| "withinBoundOrNaN b PInf = False"
| "withinBoundOrNaN b NInf = False"

text \<open>
  The numeric fields of a trip that enter the component pays parse to numbers from 0 up to
  a bound (or do not parse), under \<open>parseInt\<close> with the radix the calculator passes.
\<close>

definition inputsWithin :: "real \<Rightarrow> nat option \<Rightarrow> trip \<Rightarrow> bool" where
  "inputsWithin b radix t =
    (withinBoundOrNaN b (parseInt (t ''creditedHoursHours'') radix)
     \<and> withinBoundOrNaN b (parseInt (t ''creditedHoursMinutes'') radix)
     \<and> withinBoundOrNaN b (parseInt (t ''tafbHours'') radix)
     \<and> withinBoundOrNaN b (parseInt (t ''tafbMinutes'') radix)
     \<and> withinBoundOrNaN b (parseInt (t ''galleyHoursHours'') radix)
     \<and> withinBoundOrNaN b (parseInt (t ''galleyHoursMinutes'') radix)
     \<and> withinBoundOrNaN b (parseFloat (t ''purpleFlagPremium''))
     \<and> withinBoundOrNaN b (parseFloat (t ''purserUSHours''))
     \<and> withinBoundOrNaN b (parseFloat (t ''purserNonUSHours''))
     \<and> withinBoundOrNaN b (parseFloat (t ''holidayHours'')))"

text \<open>The value of the local \<open>baseRate\<close> of \<open>trips.js\<close>: 0 for an unknown pay year.\<close>

definition baseRate_trips :: "trip \<Rightarrow> jsnum" where
  "baseRate_trips trip =
    (if js_get PAY_RATES (val_or (trip ''payYear'') (JStr ''Year 1'')) \<noteq> Absent
     then ToNumber (baseRate_of (js_get PAY_RATES (val_or (trip ''payYear'') (JStr ''Year 1''))))
     else Num 0)"

section \<open>Example trips\<close>

text \<open>A trip with the trip length \<open>'0'\<close>.\<close>

definition tripZeroLength :: trip where
  "tripZeroLength = object
    [(''id'', JStr ''k3x9q''), (''payYear'', JStr ''Year 1''), (''tripLength'', JStr ''0''),
     (''creditedHoursHours'', JStr ''10''), (''creditedHoursMinutes'', JStr ''0''),
     (''tafbHours'', JStr ''12''), (''tafbMinutes'', JStr ''0''),
     (''whiteFlag'', JBool False), (''purpleFlag'', JBool False),
     (''retirementPercentage'', JStr ''0''), (''taxRate'', JStr ''0'')]"

text \<open>The same trip with a trip length that is no number.\<close>

definition tripWordLength :: trip where
  "tripWordLength = tripZeroLength(''tripLength'' := JStr ''two'')"

text \<open>Three trips as the form of the second monolithic script stores them; the last two tie.\<close>

definition tripLow :: trip where
  "tripLow = object
    [(''id'', JStr ''a''), (''payYear'', JStr ''Year 1''), (''tripLength'', JStr ''1''),
     (''creditedHoursHours'', JStr ''5''), (''creditedHoursMinutes'', JStr ''0''),
     (''tafbHours'', JStr ''6''), (''tafbMinutes'', JStr ''0''),
     (''whiteFlag'', JBool False), (''purpleFlag'', JBool False),
     (''retirementPercentage'', JStr ''0''), (''taxRate'', JStr ''0'')]"

definition tripHigh :: trip where
  "tripHigh = object
    [(''id'', JStr ''b''), (''payYear'', JStr ''Year 1''), (''tripLength'', JStr ''1''),
     (''creditedHoursHours'', JStr ''10''), (''creditedHoursMinutes'', JStr ''0''),
     (''tafbHours'', JStr ''12''), (''tafbMinutes'', JStr ''0''),
     (''whiteFlag'', JBool False), (''purpleFlag'', JBool False),
     (''retirementPercentage'', JStr ''0''), (''taxRate'', JStr ''0'')]"

definition tripTie :: trip where
  "tripTie = object
    [(''id'', JStr ''c''), (''payYear'', JStr ''Year 1''), (''tripLength'', JStr ''1''),
     (''creditedHoursHours'', JStr ''10''), (''creditedHoursMinutes'', JStr ''0''),
     (''tafbHours'', JStr ''12''), (''tafbMinutes'', JStr ''0''),
     (''whiteFlag'', JBool False), (''purpleFlag'', JBool False),
     (''retirementPercentage'', JStr ''0''), (''taxRate'', JStr ''0'')]"

definition exampleTrips :: "trip list" where
  "exampleTrips = [tripLow, tripHigh, tripTie]"

text \<open>
  A trip with retirement 10 and tax 20 whose only pay is purser pay of 1000, under the
  property names of both forms (\<open>purserNonUSHours\<close>, \<open>purserUsHours\<close>).
\<close>

definition tripRetirementTax :: trip where
  "tripRetirementTax = object
    [(''id'', JStr ''r1''), (''payYear'', JStr ''Year 1''), (''tripLength'', JStr ''1''),
     (''creditedHoursHours'', JStr ''0''), (''creditedHoursMinutes'', JStr ''0''),
     (''tafbHours'', JStr ''0''), (''tafbMinutes'', JStr ''0''),
     (''whiteFlag'', JBool False), (''purpleFlag'', JBool False),
     (''purserPay'', JStr ''Yes''), (''aircraftType'', JStr ''Wide''),
     (''purserUSHours'', JStr ''0''), (''purserNonUSHours'', JStr ''250''),
     (''purserUsHours'', JStr ''250''), (''purserNonUsHours'', JStr ''0''),
     (''retirementPercentage'', JStr ''10''), (''taxRate'', JStr ''20'')]"

text \<open>
  A trip as \<open>getFormData\<close> of \<open>script.js\<close> stores it: every toggle is the string
  \<open>'Yes'\<close> or \<open>'No'\<close>, every other field the string of its input. Nothing is switched on,
  and the retirement and tax fields are left empty.
\<close>

definition tripScriptForm :: trip where
  "tripScriptForm = object
    [(''id'', JStr ''q7w2e''), (''name'', JStr ''LAX turn''), (''payYear'', JStr ''Year 1''),
     (''tripLength'', JStr ''1''), (''purpleFlagPremium'', JStr ''1.5''),
     (''aircraftType'', JStr ''Narrow1''), (''holidayHours'', JStr []),
     (''retirementPercentage'', JStr []), (''taxRate'', JStr []),
     (''creditedHoursHours'', JStr ''10''), (''creditedHoursMinutes'', JStr ''0''),
     (''tafbHours'', JStr ''12''), (''tafbMinutes'', JStr ''0''),
     (''galleyHoursHours'', JStr []), (''galleyHoursMinutes'', JStr []),
     (''whiteFlag'', JStr ''No''), (''purpleFlag'', JStr ''No''), (''galleyPay'', JStr ''No''),
     (''purserPay'', JStr ''No''), (''intlOverride'', JStr ''No''),
     (''intlPayOverride'', JStr ''No''), (''languagePay'', JStr ''No''),
     (''holidayPay'', JStr ''No''),
     (''purserUSHours'', JStr []), (''purserNonUSHours'', JStr [])]"

text \<open>A trip with holiday pay switched on, four holiday hours and no time away from base.\<close>

definition tripHolidayNoTafb :: trip where
  "tripHolidayNoTafb = object
    [(''id'', JStr ''h4d1y''), (''payYear'', JStr ''Year 1''), (''tripLength'', JStr ''1''),
     (''creditedHoursHours'', JStr ''10''), (''creditedHoursMinutes'', JStr ''0''),
     (''tafbHours'', JStr ''0''), (''tafbMinutes'', JStr ''0''),
     (''whiteFlag'', JBool False), (''purpleFlag'', JBool False),
     (''holidayPay'', JStr ''Yes''), (''holidayHours'', JStr ''4''),
     (''retirementPercentage'', JStr ''0''), (''taxRate'', JStr ''0'')]"

text \<open>A trip with the white flag set, as the form of \<open>trips.js\<close> stores it.\<close>

definition tripWhiteFlag :: trip where
  "tripWhiteFlag = object
    [(''id'', JStr ''w1f7g''), (''payYear'', JStr ''Year 1''), (''tripLength'', JStr ''1''),
     (''creditedHoursHours'', JStr ''10''), (''creditedHoursMinutes'', JStr ''0''),
     (''tafbHours'', JStr ''12''), (''tafbMinutes'', JStr ''0''),
     (''whiteFlag'', JBool True), (''purpleFlag'', JBool False),
     (''purpleFlagPremium'', JStr ''1.5''), (''galleyPay'', JBool False),
     (''purserPay'', JBool False), (''intlPayOverride'', JBool False),
     (''languagePay'', JBool False), (''holidayPay'', JBool False),
     (''intlOverride'', JBool False),
     (''retirementPercentage'', JStr []), (''taxRate'', JStr [])]"

text \<open>A trip whose pay year is not in the pay table.\<close>

definition tripUnknownYear :: trip where
  "tripUnknownYear = object
    [(''id'', JStr ''u9y4r''), (''payYear'', JStr ''Year 14''), (''tripLength'', JStr ''1''),
     (''creditedHoursHours'', JStr ''10''), (''creditedHoursMinutes'', JStr ''0''),
     (''tafbHours'', JStr ''12''), (''tafbMinutes'', JStr ''0''),
     (''whiteFlag'', JBool False), (''purpleFlag'', JBool False),
     (''galleyPay'', JStr ''Yes''), (''galleyHoursHours'', JStr ''2''),
     (''galleyHoursMinutes'', JStr ''0''),
     (''retirementPercentage'', JStr ''0''), (''taxRate'', JStr ''0'')]"

text \<open>A trip with no pay year at all.\<close>

definition tripNoYear :: trip where
  "tripNoYear = object
    [(''id'', JStr ''n0y3r''), (''tripLength'', JStr ''1''),
     (''creditedHoursHours'', JStr ''10''), (''creditedHoursMinutes'', JStr ''0''),
     (''tafbHours'', JStr ''12''), (''tafbMinutes'', JStr ''0''),
     (''whiteFlag'', JBool False), (''purpleFlag'', JBool False),
     (''retirementPercentage'', JStr ''0''), (''taxRate'', JStr ''0'')]"

text \<open>The trip \<open>tripUnknownYear\<close> with pay year \<open>'Year 1'\<close>: galley pay on, two galley hours.\<close>

definition tripGalley :: trip where
  "tripGalley = tripUnknownYear(''payYear'' := JStr ''Year 1'')"

text \<open>A trip with a negative number of credited hours.\<close>

definition tripNegativeHours :: trip where
  "tripNegativeHours = object
    [(''id'', JStr ''m5n2s''), (''payYear'', JStr ''Year 1''), (''tripLength'', JStr ''1''),
     (''creditedHoursHours'', JStr ''-5''), (''creditedHoursMinutes'', JStr ''0''),
     (''tafbHours'', JStr ''12''), (''tafbMinutes'', JStr ''0''),
     (''whiteFlag'', JBool False), (''purpleFlag'', JBool False),
     (''retirementPercentage'', JStr ''0''), (''taxRate'', JStr ''0'')]"

text \<open>
  The trip \<open>tripHolidayNoTafb\<close> with ten hours away from base: its holiday pay is above 100.
\<close>

definition tripHoliday :: trip where
  "tripHoliday = tripHolidayNoTafb(''tafbHours'' := JStr ''10'')"

section \<open>Evaluation and case lemmas\<close>

lemmas parse_defs = parseInt_def parseFloat_def isWhiteSpace_def digitValue_def isRadixDigit_def
  digitsValue_def isSign_def exponentPart_def pow10_def

lemmas eval_defs = object_def parseHM_def js_or_def num_truthy_def js_get_def prop_or_def
  val_or_def PAY_RATES_def masterPayData_def rates_def purserPayStatement_def
  objectPrototypeKeys_def js_sub_def js_min_def js_max_def signed_inf_def
  DOMESTIC_PER_DIEM_def INTERNATIONAL_PER_DIEM_def DOMESTIC_PER_DIEM_RATE_def
  INTERNATIONAL_PER_DIEM_RATE_def PURSER_RATES_def GALLEY_RATE_def LANGUAGE_RATE_def
  HOLIDAY_RATE_def FLAG_RATES_white_def FLAG_RATES_purple_def Let_def

lemmas script_defs = calculateTripPay_script_def calculateTripPay_try_def catchCalculation_def
lemmas monolith_defs = calculateTripPay_monolith_def createDefaultCalculation_def
lemmas trips_defs = calculateTripPay_trips_def

lemma parseInt_integer: "parseInt v r = Num x \<Longrightarrow> \<exists>k::int. x = of_int k"
proof -
  assume a: "parseInt v r = Num x"
  have p: "\<exists>k::int. real n = of_int k" for n by (metis of_int_of_nat_eq)
  have m: "\<exists>k::int. - real n = of_int k" for n by (metis of_int_minus of_int_of_nat_eq)
  show ?thesis using a by (auto simp: parseInt_def Let_def p m split: if_splits)
qed

section \<open>Trip length and per-day value\<close>

lemma tripLength_of_ge_1:
  assumes "nonNegativeOrNaN (parseInt (t ''tripLength'') None)"
  shows "\<exists>n. tripLength_of t = Num n \<and> 1 \<le> n"
proof (cases "parseInt (t ''tripLength'') None")
  case (Num x)
  then obtain k :: int where k: "x = of_int k" using parseInt_integer by blast
  from Num assms have "0 \<le> x" by simp
  show ?thesis
  proof (cases "x = 0")
    case True
    then show ?thesis using Num by (simp add: tripLength_of_def js_or_def num_truthy_def)
  next
    case False
    with \<open>0 \<le> x\<close> k have "1 \<le> k" by simp
    then have "1 \<le> x" using k by simp
    then show ?thesis using Num False by (simp add: tripLength_of_def js_or_def num_truthy_def)
  qed
qed (use assms in \<open>simp_all add: tripLength_of_def js_or_def num_truthy_def\<close>)

lemma perDayValue_script:
  "perDayValue (calculateTripPay_script t) =
     (if js_gt (tripLength_of t) (Num 0)
      then js_div (totalGrossPay (calculateTripPay_script t)) (tripLength_of t) else Num 0)
   \<or> calculateTripPay_script t = catchCalculation"
  unfolding calculateTripPay_script_def calculateTripPay_try_def tripLength_of_def Let_def
  by (cases "purserPayStatement t") (simp_all split del: if_split cong del: if_weak_cong)

lemma perDayValue_monolith:
  "perDayValue (calculateTripPay_monolith t) =
     (if js_gt (tripLength_of t) (Num 0)
      then js_div (totalGrossPay (calculateTripPay_monolith t)) (tripLength_of t) else Num 0)
   \<or> calculateTripPay_monolith t = createDefaultCalculation"
  unfolding calculateTripPay_monolith_def tripLength_of_def Let_def
  by (cases "js_get masterPayData (val_or (t ''payYear'') (JStr ''Year 1'')) = Absent")
     (simp_all split del: if_split cong del: if_weak_cong)

text \<open>
  C10. In both monolithic calculators the trip length is \<open>parseInt(tripLength) || 1\<close>: a
  trip length that does not parse, and one that parses to 0 (the input \<open>'0'\<close>), both give
  length 1. When the parsed input is not negative, the length is a number from 1 up, the
  guard \<open>tripLength > 0\<close> holds, and \<open>perDayValue\<close> is \<open>totalGrossPay / tripLength\<close>.
\<close>

theorem trip_length_fallback:
  "(parseInt (t ''tripLength'') None = NaN \<longrightarrow> tripLength_of t = Num 1)
   \<and> (parseInt (t ''tripLength'') None = Num 0 \<longrightarrow> tripLength_of t = Num 1)
   \<and> (nonNegativeOrNaN (parseInt (t ''tripLength'') None) \<longrightarrow>
        (\<exists>n. tripLength_of t = Num n \<and> 1 \<le> n)
        \<and> js_gt (tripLength_of t) (Num 0)
        \<and> perDayValue (calculateTripPay_script t) =
            js_div (totalGrossPay (calculateTripPay_script t)) (tripLength_of t)
        \<and> perDayValue (calculateTripPay_monolith t) =
            js_div (totalGrossPay (calculateTripPay_monolith t)) (tripLength_of t))"
proof (intro conjI impI)
  assume nn: "nonNegativeOrNaN (parseInt (t ''tripLength'') None)"
  then obtain n where n: "tripLength_of t = Num n" "1 \<le> n"
    using tripLength_of_ge_1 by blast
  then show "\<exists>n. tripLength_of t = Num n \<and> 1 \<le> n" by blast
  show gt: "js_gt (tripLength_of t) (Num 0)" using n by simp
  show "perDayValue (calculateTripPay_script t) =
          js_div (totalGrossPay (calculateTripPay_script t)) (tripLength_of t)"
    using perDayValue_script [of t] gt n by (auto simp: catchCalculation_def)
  show "perDayValue (calculateTripPay_monolith t) =
          js_div (totalGrossPay (calculateTripPay_monolith t)) (tripLength_of t)"
    using perDayValue_monolith [of t] gt n by (auto simp: createDefaultCalculation_def)
qed (simp_all add: tripLength_of_def js_or_def num_truthy_def)

lemma tripZeroLength_parse:
  "parseInt (tripZeroLength ''tripLength'') None = Num 0"
  "parseInt (tripWordLength ''tripLength'') None = NaN"
  by (simp_all add: tripZeroLength_def tripWordLength_def object_def parse_defs)

theorem trip_length_fallback_witness:
  "parseInt (tripZeroLength ''tripLength'') None = Num 0
   \<and> nonNegativeOrNaN (parseInt (tripZeroLength ''tripLength'') None)
   \<and> tripLength_of tripZeroLength = Num 1
   \<and> perDayValue (calculateTripPay_script tripZeroLength) =
       js_div (totalGrossPay (calculateTripPay_script tripZeroLength)) (Num 1)
   \<and> perDayValue (calculateTripPay_monolith tripZeroLength) =
       js_div (totalGrossPay (calculateTripPay_monolith tripZeroLength)) (Num 1)
   \<and> parseInt (tripWordLength ''tripLength'') None = NaN
   \<and> tripLength_of tripWordLength = Num 1
   \<and> perDayValue (calculateTripPay_script tripWordLength) =
       js_div (totalGrossPay (calculateTripPay_script tripWordLength)) (Num 1)
   \<and> perDayValue (calculateTripPay_monolith tripWordLength) =
       js_div (totalGrossPay (calculateTripPay_monolith tripWordLength)) (Num 1)"
  using trip_length_fallback [of tripZeroLength] trip_length_fallback [of tripWordLength]
    tripZeroLength_parse
  by simp

section \<open>The best-value trip\<close>

lemma js_gt_trans: "js_gt a b \<Longrightarrow> js_gt b c \<Longrightarrow> js_gt a c"
  by (cases a; cases b; cases c) auto

lemma js_gt_above: "\<not> js_gt a m \<Longrightarrow> js_gt t m \<Longrightarrow> js_gt t a \<or> a = NaN"
  by (cases a; cases m; cases t) auto

lemma bestValueStep_pair:
  "bestValueStep calc (i, m) x =
     (if js_gt (perDayValue (calc x)) m then (x ''id'', perDayValue (calc x)) else (i, m))"
  by (simp add: bestValueStep_def)

lemma bestValue_foldl:
  "foldl (bestValueStep calc) (i, m) xs = (i', m') \<Longrightarrow>
     ((\<forall>x\<in>set xs. \<not> js_gt (perDayValue (calc x)) m) \<and> i' = i \<and> m' = m)
     \<or> (\<exists>pre t post. xs = pre @ t # post \<and> i' = t ''id'' \<and> m' = perDayValue (calc t)
           \<and> js_gt (perDayValue (calc t)) m
           \<and> (\<forall>u\<in>set pre. js_gt (perDayValue (calc t)) (perDayValue (calc u))
                  \<or> perDayValue (calc u) = NaN)
           \<and> (\<forall>u\<in>set post. \<not> js_gt (perDayValue (calc u)) (perDayValue (calc t))))"
proof (induction xs arbitrary: i m)
  case Nil
  then show ?case by simp
next
  case (Cons x xs)
  let ?p = "\<lambda>u. perDayValue (calc u)"
  show ?case
  proof (cases "js_gt (?p x) m")
    case True
    with Cons.prems have run: "foldl (bestValueStep calc) (x ''id'', ?p x) xs = (i', m')"
      by (simp add: bestValueStep_pair)
    from Cons.IH [OF run] show ?thesis
    proof
      assume "(\<forall>u\<in>set xs. \<not> js_gt (?p u) (?p x)) \<and> i' = x ''id'' \<and> m' = ?p x"
      then have "x # xs = [] @ x # xs \<and> i' = x ''id'' \<and> m' = ?p x \<and> js_gt (?p x) m
          \<and> (\<forall>u\<in>set []. js_gt (?p x) (?p u) \<or> ?p u = NaN)
          \<and> (\<forall>u\<in>set xs. \<not> js_gt (?p u) (?p x))"
        using True by simp
      then show ?thesis by blast
    next
      assume "\<exists>pre t post. xs = pre @ t # post \<and> i' = t ''id'' \<and> m' = ?p t
           \<and> js_gt (?p t) (?p x)
           \<and> (\<forall>u\<in>set pre. js_gt (?p t) (?p u) \<or> ?p u = NaN)
           \<and> (\<forall>u\<in>set post. \<not> js_gt (?p u) (?p t))"
      then obtain pre t post where s: "xs = pre @ t # post" "i' = t ''id''" "m' = ?p t"
          "js_gt (?p t) (?p x)" "\<forall>u\<in>set pre. js_gt (?p t) (?p u) \<or> ?p u = NaN"
          "\<forall>u\<in>set post. \<not> js_gt (?p u) (?p t)"
        by blast
      have "js_gt (?p t) m" using s(4) True by (rule js_gt_trans)
      with s have "x # xs = (x # pre) @ t # post \<and> i' = t ''id'' \<and> m' = ?p t \<and> js_gt (?p t) m
          \<and> (\<forall>u\<in>set (x # pre). js_gt (?p t) (?p u) \<or> ?p u = NaN)
          \<and> (\<forall>u\<in>set post. \<not> js_gt (?p u) (?p t))"
        by simp
      then show ?thesis by blast
    qed
  next
    case False
    with Cons.prems have run: "foldl (bestValueStep calc) (i, m) xs = (i', m')"
      by (simp add: bestValueStep_pair)
    from Cons.IH [OF run] show ?thesis
    proof
      assume "(\<forall>u\<in>set xs. \<not> js_gt (?p u) m) \<and> i' = i \<and> m' = m"
      then show ?thesis using False by simp
    next
      assume "\<exists>pre t post. xs = pre @ t # post \<and> i' = t ''id'' \<and> m' = ?p t
           \<and> js_gt (?p t) m
           \<and> (\<forall>u\<in>set pre. js_gt (?p t) (?p u) \<or> ?p u = NaN)
           \<and> (\<forall>u\<in>set post. \<not> js_gt (?p u) (?p t))"
      then obtain pre t post where s: "xs = pre @ t # post" "i' = t ''id''" "m' = ?p t"
          "js_gt (?p t) m" "\<forall>u\<in>set pre. js_gt (?p t) (?p u) \<or> ?p u = NaN"
          "\<forall>u\<in>set post. \<not> js_gt (?p u) (?p t)"
        by blast
      have "js_gt (?p t) (?p x) \<or> ?p x = NaN" using False s(4) by (rule js_gt_above)
      with s have "x # xs = (x # pre) @ t # post \<and> i' = t ''id'' \<and> m' = ?p t \<and> js_gt (?p t) m
          \<and> (\<forall>u\<in>set (x # pre). js_gt (?p t) (?p u) \<or> ?p u = NaN)
          \<and> (\<forall>u\<in>set post. \<not> js_gt (?p u) (?p t))"
        by simp
      then show ?thesis by blast
    qed
  qed
qed

text \<open>
  C8. The loop of \<open>renderTrips\<close> keeps the first trip whose \<open>perDayValue\<close> is greater than
  everything before it. When some trip's value is greater than \<open>-Infinity\<close>, the selected
  id is that of a trip \<open>t\<close> such that no trip has a greater value and every earlier trip has
  a smaller value (or \<open>NaN\<close>), so the first of tied trips wins; otherwise the id stays
  \<open>null\<close>. The badge is shown only for the selected id and only with more than one trip.
\<close>

theorem best_value_first_maximal:
  "((\<exists>t\<in>set trips. js_gt (perDayValue (calc t)) NInf) \<longrightarrow>
      (\<exists>pre t post. trips = pre @ t # post
         \<and> bestValueTripId calc trips = t ''id''
         \<and> (\<forall>u\<in>set pre. js_gt (perDayValue (calc t)) (perDayValue (calc u))
                \<or> perDayValue (calc u) = NaN)
         \<and> (\<forall>u\<in>set post. \<not> js_gt (perDayValue (calc u)) (perDayValue (calc t)))))
   \<and> ((\<forall>t\<in>set trips. \<not> js_gt (perDayValue (calc t)) NInf) \<longrightarrow>
        bestValueTripId calc trips = JNull)
   \<and> (\<forall>u. bestValueBadge calc trips u \<longrightarrow>
          1 < length trips \<and> u ''id'' = bestValueTripId calc trips)"
proof -
  obtain i' m' where r: "foldl (bestValueStep calc) (JNull, NInf) trips = (i', m')"
    by (cases "foldl (bestValueStep calc) (JNull, NInf) trips")
  then have id: "bestValueTripId calc trips = i'" by (simp add: bestValueTripId_def)
  from bestValue_foldl [OF r] show ?thesis
    unfolding id [symmetric] bestValueBadge_def by (auto simp: id)
qed

lemma perDayValue_tripLow: "perDayValue (calculateTripPay_script tripLow) = Num (794 / 5)"
  by (simp add: tripLow_def script_defs eval_defs parse_defs)

lemma perDayValue_tripHigh: "perDayValue (calculateTripPay_script tripHigh) = Num (1588 / 5)"
  by (simp add: tripHigh_def script_defs eval_defs parse_defs)

lemma perDayValue_tripTie: "perDayValue (calculateTripPay_script tripTie) = Num (1588 / 5)"
  by (simp add: tripTie_def script_defs eval_defs parse_defs)

lemma bestValue_exampleTrips: "bestValueTripId calculateTripPay_script exampleTrips = JStr ''b''"
  by (simp add: bestValueTripId_def exampleTrips_def bestValueStep_pair perDayValue_tripLow
        perDayValue_tripHigh perDayValue_tripTie)
     (simp add: tripHigh_def object_def)

theorem best_value_first_maximal_witness:
  "tripHigh \<in> set exampleTrips
   \<and> js_gt (perDayValue (calculateTripPay_script tripHigh)) NInf
   \<and> (\<exists>pre t post. exampleTrips = pre @ t # post
         \<and> bestValueTripId calculateTripPay_script exampleTrips = t ''id''
         \<and> (\<forall>u\<in>set pre. js_gt (perDayValue (calculateTripPay_script t))
                              (perDayValue (calculateTripPay_script u))
                \<or> perDayValue (calculateTripPay_script u) = NaN)
         \<and> (\<forall>u\<in>set post. \<not> js_gt (perDayValue (calculateTripPay_script u))
                                (perDayValue (calculateTripPay_script t))))
   \<and> bestValueTripId calculateTripPay_script exampleTrips = JStr ''b''
   \<and> \<not> bestValueBadge calculateTripPay_script [tripHigh] tripHigh"
proof -
  have m: "tripHigh \<in> set exampleTrips" by (simp add: exampleTrips_def)
  have g: "js_gt (perDayValue (calculateTripPay_script tripHigh)) NInf"
    by (simp add: perDayValue_tripHigh)
  have b: "\<not> bestValueBadge calculateTripPay_script [tripHigh] tripHigh"
    using best_value_first_maximal [of "[tripHigh]" calculateTripPay_script] by auto
  from m g have "\<exists>t\<in>set exampleTrips. js_gt (perDayValue (calculateTripPay_script t)) NInf"
    by blast
  with best_value_first_maximal [of exampleTrips calculateTripPay_script] m g b
  show ?thesis by (simp add: bestValue_exampleTrips)
qed

section \<open>Net pay estimate\<close>

lemma netPayEstimate_script:
  "calculateTripPay_script t = catchCalculation
   \<or> netPayEstimate (calculateTripPay_script t) =
       js_mul (js_sub (totalGrossPay (calculateTripPay_script t))
                 (js_mul (totalGrossPay (calculateTripPay_script t))
                    (js_div (parseFloat (t ''retirementPercentage'')) (Num 100))))
              (js_sub (Num 1) (js_div (parseFloat (t ''taxRate'')) (Num 100)))"
  unfolding calculateTripPay_script_def calculateTripPay_try_def Let_def
  by (cases "purserPayStatement t") (simp_all split del: if_split cong del: if_weak_cong)

lemma netPayEstimate_monolith:
  "calculateTripPay_monolith t = createDefaultCalculation
   \<or> netPayEstimate (calculateTripPay_monolith t) =
       js_mul (js_sub (totalGrossPay (calculateTripPay_monolith t))
                 (js_mul (totalGrossPay (calculateTripPay_monolith t))
                    (js_div (js_max (Num 0) (js_min (Num 100)
                       (js_or (parseFloat (t ''retirementPercentage'')) (Num 0)))) (Num 100))))
              (js_sub (Num 1) (js_div (js_max (Num 0) (js_min (Num 100)
                       (js_or (parseFloat (t ''taxRate'')) (Num 0)))) (Num 100)))"
  unfolding calculateTripPay_monolith_def Let_def
  by (cases "js_get masterPayData (val_or (t ''payYear'') (JStr ''Year 1'')) = Absent")
     (simp_all split del: if_split cong del: if_weak_cong)

lemma netPayEstimate_trips:
  "netPayEstimate_str (calculateTripPay_trips t) =
     Formatted
       (let grossPay = amount (grossPay_str (calculateTripPay_trips t));
            retirementPct = js_or (parseFloat (t ''retirementPercentage'')) (Num 0);
            taxPct = js_or (parseFloat (t ''taxRate'')) (Num 0);
            n1 = (if js_gt retirementPct (Num 0)
                  then js_sub grossPay (js_mul grossPay (js_div retirementPct (Num 100)))
                  else grossPay)
        in if js_gt taxPct (Num 0)
           then js_sub n1 (js_mul grossPay (js_div taxPct (Num 100))) else n1)"
  unfolding calculateTripPay_trips_def Let_def
  by (simp split del: if_split cong del: if_weak_cong)

lemma grossPay_trips_Formatted:
  "grossPay_str (calculateTripPay_trips t) = Formatted (amount (grossPay_str (calculateTripPay_trips t)))"
  unfolding calculateTripPay_trips_def Let_def
  by (simp split del: if_split cong del: if_weak_cong)

lemma clamp_percentage:
  "0 \<le> r \<Longrightarrow> r \<le> 100 \<Longrightarrow> js_max (Num 0) (js_min (Num 100) (js_or (Num r) (Num 0))) = Num r"
  by (simp add: js_max_def js_min_def js_or_def num_truthy_def)

text \<open>
  For a trip whose retirement percentage and tax rate parse to numbers in \<open>[0, 100]\<close>
  and whose gross pay \<open>g\<close> is finite, both monolithic calculators return
  \<open>netPayEstimate = (g - g * (r / 100)) * (1 - x / 100)\<close>: the retirement deduction is
  subtracted first, and the tax is taken from what remains.
\<close>

lemma netPayEstimate_retirement_first:
  assumes "parseFloat (t ''retirementPercentage'') = Num r" and "0 \<le> r" and "r \<le> 100"
    and "parseFloat (t ''taxRate'') = Num x" and "0 \<le> x" and "x \<le> 100"
  shows "(\<forall>g. totalGrossPay (calculateTripPay_script t) = Num g \<longrightarrow>
            netPayEstimate (calculateTripPay_script t) = Num ((g - g * (r / 100)) * (1 - x / 100)))
       \<and> (\<forall>g. totalGrossPay (calculateTripPay_monolith t) = Num g \<longrightarrow>
            netPayEstimate (calculateTripPay_monolith t) = Num ((g - g * (r / 100)) * (1 - x / 100)))"
proof (intro conjI allI impI)
  fix g
  assume g: "totalGrossPay (calculateTripPay_script t) = Num g"
  from netPayEstimate_script [of t]
  show "netPayEstimate (calculateTripPay_script t) = Num ((g - g * (r / 100)) * (1 - x / 100))"
  proof
    assume c: "calculateTripPay_script t = catchCalculation"
    with g have "g = 0" by (simp add: catchCalculation_def)
    then show ?thesis using c by (simp add: catchCalculation_def)
  next
    assume "netPayEstimate (calculateTripPay_script t) =
       js_mul (js_sub (totalGrossPay (calculateTripPay_script t))
                 (js_mul (totalGrossPay (calculateTripPay_script t))
                    (js_div (parseFloat (t ''retirementPercentage'')) (Num 100))))
              (js_sub (Num 1) (js_div (parseFloat (t ''taxRate'')) (Num 100)))"
    then show ?thesis using g assms by (simp add: js_sub_def)
  qed
next
  fix g
  assume g: "totalGrossPay (calculateTripPay_monolith t) = Num g"
  from netPayEstimate_monolith [of t]
  show "netPayEstimate (calculateTripPay_monolith t) = Num ((g - g * (r / 100)) * (1 - x / 100))"
  proof
    assume c: "calculateTripPay_monolith t = createDefaultCalculation"
    with g have "g = 0" by (simp add: createDefaultCalculation_def)
    then show ?thesis using c by (simp add: createDefaultCalculation_def)
  next
    assume "netPayEstimate (calculateTripPay_monolith t) =
       js_mul (js_sub (totalGrossPay (calculateTripPay_monolith t))
                 (js_mul (totalGrossPay (calculateTripPay_monolith t))
                    (js_div (js_max (Num 0) (js_min (Num 100)
                       (js_or (parseFloat (t ''retirementPercentage'')) (Num 0)))) (Num 100))))
              (js_sub (Num 1) (js_div (js_max (Num 0) (js_min (Num 100)
                       (js_or (parseFloat (t ''taxRate'')) (Num 0)))) (Num 100)))"
    then show ?thesis using g assms by (simp add: js_sub_def clamp_percentage)
  qed
qed

text \<open>
  The trip-card calculator of \<open>trips.js\<close> takes both percentages from the gross pay:
  \<open>netPayEstimate = g - g * (r / 100) - g * (x / 100)\<close>.
\<close>

lemma netPayEstimate_trips_on_gross:
  assumes "parseFloat (t ''retirementPercentage'') = Num r" and "0 \<le> r"
    and "parseFloat (t ''taxRate'') = Num x" and "0 \<le> x"
    and g: "grossPay_str (calculateTripPay_trips t) = Formatted (Num g)"
  shows "netPayEstimate_str (calculateTripPay_trips t) =
          Formatted (Num (g - g * (r / 100) - g * (x / 100)))"
  unfolding netPayEstimate_trips using g assms
  by (simp add: js_sub_def js_or_def num_truthy_def Let_def)

lemma tripRetirementTax_parse:
  "parseFloat (tripRetirementTax ''retirementPercentage'') = Num 10"
  "parseFloat (tripRetirementTax ''taxRate'') = Num 20"
  by (simp_all add: tripRetirementTax_def object_def parse_defs)

lemma tripRetirementTax_gross:
  "totalGrossPay (calculateTripPay_script tripRetirementTax) = Num 1000"
  "totalGrossPay (calculateTripPay_monolith tripRetirementTax) = Num 1000"
  "grossPay_str (calculateTripPay_trips tripRetirementTax) = Formatted (Num 1000)"
    by (simp_all add: tripRetirementTax_def script_defs monolith_defs trips_defs eval_defs parse_defs)

text \<open>
  C1. With retirement 10, tax 20 and gross pay 1000 both monolithic calculators return the
  net pay estimate \<open>(1000 - 100) * (1 - 20 / 100) = 720\<close> of the claim, the tax being taken
  after the retirement deduction. The trip-card calculator of \<open>trips.js\<close> takes the tax
  from the gross pay and shows \<open>1000 - 100 - 200 = 700\<close> for the same trip.
\<close>

theorem net_pay_trips_tax_on_gross:
  "parseFloat (tripRetirementTax ''retirementPercentage'') = Num 10
   \<and> parseFloat (tripRetirementTax ''taxRate'') = Num 20
   \<and> grossPay_str (calculateTripPay_trips tripRetirementTax) = Formatted (Num 1000)
   \<and> netPayEstimate_str (calculateTripPay_trips tripRetirementTax) = Formatted (Num 700)
   \<and> totalGrossPay (calculateTripPay_script tripRetirementTax) = Num 1000
   \<and> netPayEstimate (calculateTripPay_script tripRetirementTax) = Num 720
   \<and> totalGrossPay (calculateTripPay_monolith tripRetirementTax) = Num 1000
   \<and> netPayEstimate (calculateTripPay_monolith tripRetirementTax) = Num 720"
  using netPayEstimate_retirement_first
      [OF tripRetirementTax_parse(1) _ _ tripRetirementTax_parse(2), simplified]
    netPayEstimate_trips_on_gross
      [OF tripRetirementTax_parse(1) _ tripRetirementTax_parse(2) _ tripRetirementTax_gross(3),
       simplified]
    tripRetirementTax_parse tripRetirementTax_gross
  by simp

section \<open>Flag multiplier and unparseable percentages\<close>

text \<open>
  The flag multiplier of the second monolithic script: 1, times 1.5 when \<open>whiteFlag\<close> is
  \<open>true\<close> or \<open>'Yes'\<close>, times the purple premium when \<open>purpleFlag\<close> is \<open>true\<close> or \<open>'Yes'\<close>.
\<close>

lemma effectiveRate_monolith:
  assumes "js_get masterPayData (val_or (t ''payYear'') (JStr ''Year 1'')) = Own (b, f)"
  shows "baseRate (calculateTripPay_monolith t) = Some (Num b)
    \<and> effectiveRate (calculateTripPay_monolith t) =
        js_mul (Num b)
          (js_mul (if t ''whiteFlag'' = JBool True \<or> t ''whiteFlag'' = JStr ''Yes''
                   then Num (15 / 10) else Num 1)
                  (if t ''purpleFlag'' = JBool True \<or> t ''purpleFlag'' = JStr ''Yes''
                   then js_or (parseFloat (t ''purpleFlagPremium'')) (Num (15 / 10)) else Num 1))"
  unfolding calculateTripPay_monolith_def Let_def using assms
  by (cases "js_or (parseFloat (t ''purpleFlagPremium'')) (Num (15 / 10))")
     (simp_all add: signed_inf_def)

text \<open>
  The flag multiplier of \<open>script.js\<close> tests the truthiness of the stored flag, and both
  \<open>'Yes'\<close> and \<open>'No'\<close> are truthy.
\<close>

lemma effectiveRate_script:
  assumes "purserPayStatement t = Inr a"
  shows "effectiveRate (calculateTripPay_script t) =
        js_mul (ToNumber (baseRate (calculateTripPay_script t)))
          (js_mul (if truthy (t ''whiteFlag'') then Num (15 / 10) else Num 1)
                  (if truthy (t ''purpleFlag'')
                   then js_or (parseFloat (t ''purpleFlagPremium'')) (Num (15 / 10)) else Num 1))"
  unfolding calculateTripPay_script_def calculateTripPay_try_def Let_def using assms
  by (simp split del: if_split cong del: if_weak_cong)

text \<open>
  C2 (code bug). For the trip that the form of \<open>script.js\<close> stores with both flag toggles
  off (\<open>'No'\<close>), \<open>calculateTripPay\<close> of \<open>script.js\<close> multiplies the base rate 28.88 by
  \<open>1.5 * 1.5\<close>; the second monolithic script leaves it unchanged.
\<close>

theorem flags_off_still_multiplied:
  "tripScriptForm ''whiteFlag'' = JStr ''No''
   \<and> tripScriptForm ''purpleFlag'' = JStr ''No''
   \<and> baseRate (calculateTripPay_script tripScriptForm) = Some (Num (2888 / 100))
   \<and> effectiveRate (calculateTripPay_script tripScriptForm) = Num (6498 / 100)
   \<and> baseRate (calculateTripPay_monolith tripScriptForm) = Some (Num (2888 / 100))
   \<and> effectiveRate (calculateTripPay_monolith tripScriptForm) = Num (2888 / 100)"
  by (simp add: tripScriptForm_def script_defs monolith_defs eval_defs parse_defs)

text \<open>
  With the retirement and tax fields missing or unparseable, the second monolithic script
  and \<open>trips.js\<close> substitute 0 and return the gross pay as net pay.
\<close>

lemma netPayEstimate_monolith_unparseable:
  assumes "parseFloat (t ''retirementPercentage'') = NaN" and "parseFloat (t ''taxRate'') = NaN"
    and "totalGrossPay (calculateTripPay_monolith t) = Num g"
  shows "netPayEstimate (calculateTripPay_monolith t) = Num g"
  using netPayEstimate_monolith [of t] assms
  by (auto simp: createDefaultCalculation_def js_or_def num_truthy_def js_max_def js_min_def
        js_sub_def)

lemma netPayEstimate_trips_unparseable:
  assumes "parseFloat (t ''retirementPercentage'') = NaN" and "parseFloat (t ''taxRate'') = NaN"
  shows "netPayEstimate_str (calculateTripPay_trips t) = grossPay_str (calculateTripPay_trips t)"
  unfolding netPayEstimate_trips using assms grossPay_trips_Formatted [of t]
  by (simp add: js_or_def num_truthy_def Let_def)

text \<open>
  C7 (code bug). For the same stored trip, whose retirement and tax fields are empty,
  \<open>calculateTripPay\<close> of \<open>script.js\<close> returns a gross pay of 678.60 and the net pay
  estimate \<open>NaN\<close>; the second monolithic script returns its gross pay as net pay.
\<close>

theorem empty_percentages_give_NaN:
  "parseFloat (tripScriptForm ''retirementPercentage'') = NaN
   \<and> parseFloat (tripScriptForm ''taxRate'') = NaN
   \<and> totalGrossPay (calculateTripPay_script tripScriptForm) = Num (67860 / 100)
   \<and> netPayEstimate (calculateTripPay_script tripScriptForm) = NaN
   \<and> totalGrossPay (calculateTripPay_monolith tripScriptForm) = Num (31760 / 100)
   \<and> netPayEstimate (calculateTripPay_monolith tripScriptForm) = Num (31760 / 100)"
  by (simp add: tripScriptForm_def script_defs monolith_defs eval_defs parse_defs)

section \<open>Holiday pay without duty hours\<close>

lemma script_catch: "purserPayStatement t = Inl e \<Longrightarrow> calculateTripPay_script t = catchCalculation"
  by (simp add: calculateTripPay_script_def calculateTripPay_try_def Let_def)

lemma monolith_default:
  "js_get masterPayData (val_or (t ''payYear'') (JStr ''Year 1'')) = Absent \<Longrightarrow>
     calculateTripPay_monolith t = createDefaultCalculation"
  by (simp add: calculateTripPay_monolith_def Let_def)

lemma holidayPay_script:
  "\<not> js_gt (parseHM (t ''tafbHours'') (t ''tafbMinutes'')) (Num 0) \<Longrightarrow>
     holidayPay (calculateTripPay_script t) = Num 0"
  by (cases "purserPayStatement t")
     (simp_all add: calculateTripPay_script_def calculateTripPay_try_def catchCalculation_def Let_def)

lemma holidayPay_monolith:
  "\<not> js_gt (parseHM_radix10 (t ''tafbHours'') (t ''tafbMinutes'')) (Num 0) \<Longrightarrow>
     holidayPay (calculateTripPay_monolith t) = Num 0"
  by (cases "js_get masterPayData (val_or (t ''payYear'') (JStr ''Year 1'')) = Absent")
     (simp_all add: calculateTripPay_monolith_def createDefaultCalculation_def parseHM_radix10_def
        Let_def)

lemma holidayPay_trips:
  "holidayPay_str (calculateTripPay_trips t) =
     (if truthy (t ''holidayPay'') then
        Formatted
          (js_mul (js_mul (js_or (parseFloat (t ''holidayHours'')) (Num 0)) (baseRate_trips t))
                  (Num (HOLIDAY_RATE - 1)))
      else Dashes)"
  unfolding calculateTripPay_trips_def baseRate_trips_def Let_def
  by (cases "truthy (t ''holidayPay'')")
     (simp_all add: js_sub_def split del: if_split cong del: if_weak_cong)

lemma baseRate_trips_tafb:
  "baseRate_trips (t(''tafbHours'' := h, ''tafbMinutes'' := m)) = baseRate_trips t"
  by (simp add: baseRate_trips_def)

text \<open>
  C3 (amended). In both monolithic calculators a trip whose duty hours are not greater
  than 0 (in particular: are 0) gets \<open>holidayPay = 0\<close>, whatever the holiday hours and the
  holiday flag are; the proration, with its division by the duty hours, is computed only
  when they are greater than 0. The trip-card calculator of \<open>trips.js\<close> does not prorate:
  with a truthy holiday flag its holiday pay is the holiday hours times the base rate
  times \<open>HOLIDAY_RATE - 1\<close>, whatever the TAFB fields hold, and it is the placeholder
  (amount 0) exactly when the holiday flag is falsy.
\<close>

theorem holiday_pay_zero_without_duty:
  "(\<not> js_gt (parseHM (t ''tafbHours'') (t ''tafbMinutes'')) (Num 0) \<longrightarrow>
      holidayPay (calculateTripPay_script t) = Num 0)
   \<and> (\<not> js_gt (parseHM_radix10 (t ''tafbHours'') (t ''tafbMinutes'')) (Num 0) \<longrightarrow>
        holidayPay (calculateTripPay_monolith t) = Num 0)
   \<and> (truthy (t ''holidayPay'') \<longrightarrow>
        holidayPay_str (calculateTripPay_trips t) =
          Formatted (js_mul (js_mul (js_or (parseFloat (t ''holidayHours'')) (Num 0))
                               (baseRate_trips t))
                            (Num (HOLIDAY_RATE - 1))))
   \<and> (\<forall>h m. holidayPay_str (calculateTripPay_trips (t(''tafbHours'' := h, ''tafbMinutes'' := m))) =
            holidayPay_str (calculateTripPay_trips t))
   \<and> (holidayPay_str (calculateTripPay_trips t) = Dashes \<longleftrightarrow> \<not> truthy (t ''holidayPay''))"
  using holidayPay_script [of t] holidayPay_monolith [of t]
  by (simp add: holidayPay_trips baseRate_trips_tafb)

lemma tripHolidayNoTafb_duty:
  "parseHM (tripHolidayNoTafb ''tafbHours'') (tripHolidayNoTafb ''tafbMinutes'') = Num 0"
  "parseHM_radix10 (tripHolidayNoTafb ''tafbHours'') (tripHolidayNoTafb ''tafbMinutes'') = Num 0"
  "parseFloat (tripHolidayNoTafb ''holidayHours'') = Num 4"
  "tripHolidayNoTafb ''holidayPay'' = JStr ''Yes''"
  by (simp_all add: tripHolidayNoTafb_def parseHM_radix10_def eval_defs parse_defs)

lemma tripHolidayNoTafb_baseRate: "baseRate_trips tripHolidayNoTafb = Num (2888 / 100)"
  by (simp add: tripHolidayNoTafb_def baseRate_trips_def eval_defs)

theorem holiday_pay_zero_without_duty_witness:
  "parseHM (tripHolidayNoTafb ''tafbHours'') (tripHolidayNoTafb ''tafbMinutes'') = Num 0
   \<and> parseHM_radix10 (tripHolidayNoTafb ''tafbHours'') (tripHolidayNoTafb ''tafbMinutes'') = Num 0
   \<and> parseFloat (tripHolidayNoTafb ''holidayHours'') = Num 4
   \<and> tripHolidayNoTafb ''holidayPay'' = JStr ''Yes''
   \<and> holidayPay (calculateTripPay_script tripHolidayNoTafb) = Num 0
   \<and> holidayPay (calculateTripPay_monolith tripHolidayNoTafb) = Num 0
   \<and> holidayPay_str (calculateTripPay_trips tripHolidayNoTafb) = Formatted (Num (5776 / 100))"
  using holiday_pay_zero_without_duty [of tripHolidayNoTafb] tripHolidayNoTafb_duty
    tripHolidayNoTafb_baseRate
  by (simp add: js_or_def num_truthy_def HOLIDAY_RATE_def)

text \<open>
  With no time away from base, holiday pay on and four holiday hours, the trip-card
  calculator of \<open>trips.js\<close> returns a holiday pay of \<open>4 * 28.88 * 0.5 = 57.76\<close>.
\<close>

theorem holiday_pay_trips_counterexample:
  "parseHM_radix10 (tripHolidayNoTafb ''tafbHours'') (tripHolidayNoTafb ''tafbMinutes'') = Num 0
   \<and> holidayPay_str (calculateTripPay_trips tripHolidayNoTafb) = Formatted (Num (5776 / 100))"
  by (simp add: tripHolidayNoTafb_def parseHM_radix10_def trips_defs eval_defs parse_defs)

section \<open>Gross pay as the sum of its components\<close>

text \<open>
  \<open>script.js\<close> adds the values of \<open>payComponents\<close> in the order of its properties,
  starting from 0; the second monolithic script adds its seven locals in one expression.
\<close>

lemma totalGrossPay_script_foldl:
  "totalGrossPay (calculateTripPay_script t) =
     foldl js_add (Num 0)
       [basePay (calculateTripPay_script t), galleyPay (calculateTripPay_script t),
        purserPay (calculateTripPay_script t), perDiem (calculateTripPay_script t),
        languagePay (calculateTripPay_script t), intlOverridePay (calculateTripPay_script t),
        holidayPay (calculateTripPay_script t)]"
proof (cases "purserPayStatement t")
  case (Inl e)
  then show ?thesis by (simp add: script_catch catchCalculation_def)
next
  case (Inr a)
  then show ?thesis
    unfolding calculateTripPay_script_def calculateTripPay_try_def Let_def
    by (simp del: foldl_Cons foldl_Nil split del: if_split cong del: if_weak_cong)
qed

lemma totalGrossPay_monolith_sum:
  "totalGrossPay (calculateTripPay_monolith t) =
     js_add (js_add (js_add (js_add (js_add (js_add
       (basePay (calculateTripPay_monolith t)) (galleyPay (calculateTripPay_monolith t)))
       (purserPay (calculateTripPay_monolith t))) (intlOverridePay (calculateTripPay_monolith t)))
       (languagePay (calculateTripPay_monolith t))) (perDiem (calculateTripPay_monolith t)))
       (holidayPay (calculateTripPay_monolith t))"
proof (cases "js_get masterPayData (val_or (t ''payYear'') (JStr ''Year 1'')) = Absent")
  case True
  then show ?thesis by (simp add: monolith_default createDefaultCalculation_def)
next
  case False
  then show ?thesis
    unfolding calculateTripPay_monolith_def Let_def
    by (simp split del: if_split cong del: if_weak_cong)
qed

text \<open>
  The trip-card calculator of \<open>trips.js\<close> adds nine amounts and formats the sum; each
  returned component is the display string of its amount, or the placeholder.
\<close>

lemma amount_if: "amount (if b then Formatted x else Dashes) = (if b then x else Num 0)"
  by simp

lemma grossPay_trips:
  "amount (grossPay_str (calculateTripPay_trips t)) =
     js_add (js_add (js_add (js_add (js_add (js_add (js_add (js_add
       (amount (basePay_str (calculateTripPay_trips t)))
       (amount (perDiem_str (calculateTripPay_trips t))))
       (amount (whiteFlagPay_str (calculateTripPay_trips t))))
       (amount (purpleFlagPay_str (calculateTripPay_trips t))))
       (amount (galleyPay_str (calculateTripPay_trips t))))
       (amount (purserPay_str (calculateTripPay_trips t))))
       (amount (languagePay_str (calculateTripPay_trips t))))
       (amount (holidayPay_str (calculateTripPay_trips t))))
       (amount (intlOverridePay_str (calculateTripPay_trips t)))"
  unfolding calculateTripPay_trips_def Let_def
  by (cases "truthy (t ''purpleFlag'')"; cases "truthy (t ''purserPay'')")
     (simp_all add: amount_if split del: if_split cong del: if_weak_cong cong: if_cong)

lemma tripCard_amounts:
  "basePay_str (calculateTripPay_trips t) = Formatted (amount (basePay_str (calculateTripPay_trips t)))"
  "perDiem_str (calculateTripPay_trips t) = Formatted (amount (perDiem_str (calculateTripPay_trips t)))"
  "whiteFlagPay_str (calculateTripPay_trips t) =
     (if truthy (t ''whiteFlag'')
      then Formatted (amount (whiteFlagPay_str (calculateTripPay_trips t))) else Dashes)"
  "purpleFlagPay_str (calculateTripPay_trips t) =
     (if truthy (t ''purpleFlag'')
      then Formatted (amount (purpleFlagPay_str (calculateTripPay_trips t))) else Dashes)"
  "galleyPay_str (calculateTripPay_trips t) =
     (if truthy (t ''galleyPay'')
      then Formatted (amount (galleyPay_str (calculateTripPay_trips t))) else Dashes)"
  "purserPay_str (calculateTripPay_trips t) =
     (if truthy (t ''purserPay'')
      then Formatted (amount (purserPay_str (calculateTripPay_trips t))) else Dashes)"
  "languagePay_str (calculateTripPay_trips t) =
     (if truthy (t ''languagePay'')
      then Formatted (amount (languagePay_str (calculateTripPay_trips t))) else Dashes)"
  "holidayPay_str (calculateTripPay_trips t) =
     (if truthy (t ''holidayPay'')
      then Formatted (amount (holidayPay_str (calculateTripPay_trips t))) else Dashes)"
  "intlOverridePay_str (calculateTripPay_trips t) =
     (if truthy (t ''intlPayOverride'')
      then Formatted (amount (intlOverridePay_str (calculateTripPay_trips t))) else Dashes)"
  unfolding calculateTripPay_trips_def Let_def
  by (simp_all add: amount_if split del: if_split cong del: if_weak_cong cong: if_cong)

lemma disabled_if: "c \<or> (if c then x else Num 0) = Num 0"
  by simp

lemma tripCard_disabled:
  "truthy (t ''whiteFlag'') \<or> amount (whiteFlagPay_str (calculateTripPay_trips t)) = Num 0"
  "truthy (t ''purpleFlag'') \<or> amount (purpleFlagPay_str (calculateTripPay_trips t)) = Num 0"
  "truthy (t ''galleyPay'') \<or> amount (galleyPay_str (calculateTripPay_trips t)) = Num 0"
  "truthy (t ''purserPay'') \<or> amount (purserPay_str (calculateTripPay_trips t)) = Num 0"
  "truthy (t ''languagePay'') \<or> amount (languagePay_str (calculateTripPay_trips t)) = Num 0"
  "truthy (t ''holidayPay'') \<or> amount (holidayPay_str (calculateTripPay_trips t)) = Num 0"
  "truthy (t ''intlPayOverride'') \<or> amount (intlOverridePay_str (calculateTripPay_trips t)) = Num 0"
  unfolding calculateTripPay_trips_def Let_def
  by (simp_all add: amount_if disabled_if split del: if_split cong del: if_weak_cong)

lemma grossPay_trips_sum:
  "grossPay_str (calculateTripPay_trips t) =
     Formatted (js_add (js_add (js_add (js_add (js_add (js_add (js_add (js_add
       (amount (basePay_str (calculateTripPay_trips t)))
       (amount (perDiem_str (calculateTripPay_trips t))))
       (amount (whiteFlagPay_str (calculateTripPay_trips t))))
       (amount (purpleFlagPay_str (calculateTripPay_trips t))))
       (amount (galleyPay_str (calculateTripPay_trips t))))
       (amount (purserPay_str (calculateTripPay_trips t))))
       (amount (languagePay_str (calculateTripPay_trips t))))
       (amount (holidayPay_str (calculateTripPay_trips t))))
       (amount (intlOverridePay_str (calculateTripPay_trips t))))"
  using grossPay_trips_Formatted [of t] unfolding grossPay_trips [of t] .

text \<open>
  C4 (amended). In both monolithic calculators \<open>totalGrossPay\<close> is the sum of the seven
  returned component pays, added from left to right in the order of the source:
  \<open>0 + basePay + galleyPay + purserPay + perDiem + languagePay + intlOverridePay +
  holidayPay\<close> in \<open>script.js\<close>, and \<open>basePay + galleyPay + purserPay + intlOverridePay +
  languagePay + perDiem + holidayPay\<close> in the second monolithic script. The trip-card
  calculator of \<open>trips.js\<close> shows as gross pay the formatted sum of nine amounts,
  \<open>basePay + perDiem + whiteFlagPay + purpleFlagPay + galleyPay + purserPay + languagePay +
  holidayPay + intlOverridePay\<close>, where each returned component is the display string of
  its amount, or the placeholder when its flag is falsy, and then its amount is 0.
\<close>

theorem gross_pay_is_component_sum:
  "totalGrossPay (calculateTripPay_script t) =
     foldl js_add (Num 0)
       [basePay (calculateTripPay_script t), galleyPay (calculateTripPay_script t),
        purserPay (calculateTripPay_script t), perDiem (calculateTripPay_script t),
        languagePay (calculateTripPay_script t), intlOverridePay (calculateTripPay_script t),
        holidayPay (calculateTripPay_script t)]
   \<and> totalGrossPay (calculateTripPay_monolith t) =
     js_add (js_add (js_add (js_add (js_add (js_add
       (basePay (calculateTripPay_monolith t)) (galleyPay (calculateTripPay_monolith t)))
       (purserPay (calculateTripPay_monolith t))) (intlOverridePay (calculateTripPay_monolith t)))
       (languagePay (calculateTripPay_monolith t))) (perDiem (calculateTripPay_monolith t)))
       (holidayPay (calculateTripPay_monolith t))
   \<and> (\<exists>b d w u g p l h i.
        basePay_str (calculateTripPay_trips t) = Formatted b
        \<and> perDiem_str (calculateTripPay_trips t) = Formatted d
        \<and> whiteFlagPay_str (calculateTripPay_trips t) =
            (if truthy (t ''whiteFlag'') then Formatted w else Dashes)
        \<and> purpleFlagPay_str (calculateTripPay_trips t) =
            (if truthy (t ''purpleFlag'') then Formatted u else Dashes)
        \<and> galleyPay_str (calculateTripPay_trips t) =
            (if truthy (t ''galleyPay'') then Formatted g else Dashes)
        \<and> purserPay_str (calculateTripPay_trips t) =
            (if truthy (t ''purserPay'') then Formatted p else Dashes)
        \<and> languagePay_str (calculateTripPay_trips t) =
            (if truthy (t ''languagePay'') then Formatted l else Dashes)
        \<and> holidayPay_str (calculateTripPay_trips t) =
            (if truthy (t ''holidayPay'') then Formatted h else Dashes)
        \<and> intlOverridePay_str (calculateTripPay_trips t) =
            (if truthy (t ''intlPayOverride'') then Formatted i else Dashes)
        \<and> (truthy (t ''whiteFlag'') \<or> w = Num 0)
        \<and> (truthy (t ''purpleFlag'') \<or> u = Num 0)
        \<and> (truthy (t ''galleyPay'') \<or> g = Num 0)
        \<and> (truthy (t ''purserPay'') \<or> p = Num 0)
        \<and> (truthy (t ''languagePay'') \<or> l = Num 0)
        \<and> (truthy (t ''holidayPay'') \<or> h = Num 0)
        \<and> (truthy (t ''intlPayOverride'') \<or> i = Num 0)
        \<and> grossPay_str (calculateTripPay_trips t) =
            Formatted (js_add (js_add (js_add (js_add (js_add (js_add (js_add (js_add
              b d) w) u) g) p) l) h) i))"
  by (intro conjI exI)
     (rule totalGrossPay_script_foldl totalGrossPay_monolith_sum tripCard_amounts
        tripCard_disabled grossPay_trips_sum)+

lemma tripWhiteFlag_components:
  "basePay (calculateTripPay_script tripWhiteFlag) = Num (43320 / 100)"
  "galleyPay (calculateTripPay_script tripWhiteFlag) = Num 0"
  "purserPay (calculateTripPay_script tripWhiteFlag) = Num 0"
  "perDiem (calculateTripPay_script tripWhiteFlag) = Num (2880 / 100)"
  "languagePay (calculateTripPay_script tripWhiteFlag) = Num 0"
  "intlOverridePay (calculateTripPay_script tripWhiteFlag) = Num 0"
  "holidayPay (calculateTripPay_script tripWhiteFlag) = Num 0"
  "basePay (calculateTripPay_monolith tripWhiteFlag) = Num (43320 / 100)"
  "galleyPay (calculateTripPay_monolith tripWhiteFlag) = Num 0"
  "purserPay (calculateTripPay_monolith tripWhiteFlag) = Num 0"
  "perDiem (calculateTripPay_monolith tripWhiteFlag) = Num (2880 / 100)"
  "languagePay (calculateTripPay_monolith tripWhiteFlag) = Num 0"
  "intlOverridePay (calculateTripPay_monolith tripWhiteFlag) = Num 0"
  "holidayPay (calculateTripPay_monolith tripWhiteFlag) = Num 0"
  by (simp_all add: tripWhiteFlag_def script_defs monolith_defs eval_defs parse_defs)

theorem gross_pay_is_component_sum_witness:
  "totalGrossPay (calculateTripPay_script tripWhiteFlag) = Num (46200 / 100)
   \<and> totalGrossPay (calculateTripPay_monolith tripWhiteFlag) = Num (46200 / 100)"
  using gross_pay_is_component_sum [of tripWhiteFlag]
  by (simp add: tripWhiteFlag_components)

text \<open>
  With the white flag set, the trip card shows the gross pay 389.80, while the seven
  components it shows are the base pay 288.80, the per diem 28.80 and five placeholders,
  317.60 in all: the white flag pay of 72.20 is a component of its own.
\<close>

theorem gross_pay_trips_counterexample:
  "basePay_str (calculateTripPay_trips tripWhiteFlag) = Formatted (Num (28880 / 100))
   \<and> galleyPay_str (calculateTripPay_trips tripWhiteFlag) = Dashes
   \<and> purserPay_str (calculateTripPay_trips tripWhiteFlag) = Dashes
   \<and> languagePay_str (calculateTripPay_trips tripWhiteFlag) = Dashes
   \<and> intlOverridePay_str (calculateTripPay_trips tripWhiteFlag) = Dashes
   \<and> perDiem_str (calculateTripPay_trips tripWhiteFlag) = Formatted (Num (2880 / 100))
   \<and> holidayPay_str (calculateTripPay_trips tripWhiteFlag) = Dashes
   \<and> whiteFlagPay_str (calculateTripPay_trips tripWhiteFlag) = Formatted (Num (7220 / 100))
   \<and> grossPay_str (calculateTripPay_trips tripWhiteFlag) = Formatted (Num (38980 / 100))
   \<and> (28880 / 100 + 2880 / 100 :: real) = 31760 / 100
   \<and> (31760 / 100 :: real) \<noteq> 38980 / 100"
  by (simp add: tripWhiteFlag_def trips_defs eval_defs parse_defs)

section \<open>Pay year fallback\<close>

lemma Year1_own:
  "js_get PAY_RATES (JStr ''Year 1'') = Own (2888 / 100, 4332 / 100)"
  by (simp add: js_get_def PAY_RATES_def)

lemma payYear_update [simp]:
  "val_or ((t(''payYear'' := JStr ''Year 1'')) ''payYear'') (JStr ''Year 1'') = JStr ''Year 1''"
  by (simp add: val_or_def)

lemma purserPayStatement_payYear:
  "purserPayStatement (t(''payYear'' := v)) = purserPayStatement t"
  by (simp add: purserPayStatement_def)

lemma script_missing_payYear:
  assumes "\<not> truthy (t ''payYear'')"
  shows "calculateTripPay_script (t(''payYear'' := JStr ''Year 1'')) = calculateTripPay_script t"
  unfolding calculateTripPay_script_def calculateTripPay_try_def Let_def
    purserPayStatement_payYear
  using assms
  by (cases "purserPayStatement t")
     (simp_all add: val_or_def split del: if_split cong del: if_weak_cong)

lemma script_unknown_payYear:
  assumes "truthy (t ''payYear'')" and "js_get PAY_RATES (t ''payYear'') = Absent"
  shows "calculateTripPay_script (t(''payYear'' := JStr ''Year 1'')) = calculateTripPay_script t"
  unfolding calculateTripPay_script_def calculateTripPay_try_def Let_def
    purserPayStatement_payYear
  using assms
  by (cases "purserPayStatement t")
     (simp_all add: val_or_def prop_or_def Year1_own split del: if_split cong del: if_weak_cong)

lemma monolith_missing_payYear:
  assumes "\<not> truthy (t ''payYear'')"
  shows "calculateTripPay_monolith (t(''payYear'' := JStr ''Year 1'')) = calculateTripPay_monolith t"
  unfolding calculateTripPay_monolith_def Let_def
  using assms
  by (simp add: val_or_def split del: if_split cong del: if_weak_cong)

lemma trips_missing_payYear:
  assumes "\<not> truthy (t ''payYear'')"
  shows "calculateTripPay_trips (t(''payYear'' := JStr ''Year 1'')) = calculateTripPay_trips t"
  unfolding calculateTripPay_trips_def Let_def
  using assms
  by (simp add: val_or_def split del: if_split cong del: if_weak_cong)

lemma monolith_unknown_payYear:
  assumes "truthy (t ''payYear'')" and "js_get masterPayData (t ''payYear'') = Absent"
  shows "calculateTripPay_monolith t = createDefaultCalculation"
  using assms by (simp add: monolith_default val_or_def)

lemma parseInt_cases: "parseInt v r = NaN \<or> (\<exists>x. parseInt v r = Num x)"
  by (simp add: parseInt_def Let_def)

lemma js_or_parseInt_Num: "\<exists>x. js_or (parseInt v r) (Num d) = Num x"
  using parseInt_cases [of v r] by (auto simp: js_or_def num_truthy_def)

lemma parseHM_radix10_Num: "\<exists>x. parseHM_radix10 h m = Num x"
proof -
  obtain a b where "js_or (parseInt h (Some 10)) (Num 0) = Num a"
      "js_or (parseInt m (Some 10)) (Num 0) = Num b"
    using js_or_parseInt_Num by metis
  then show ?thesis by (simp add: parseHM_radix10_def)
qed

lemma parseHM_Num: "\<exists>x. parseHM h m = Num x"
proof -
  obtain a b where "js_or (parseInt h None) (Num 0) = Num a"
      "js_or (parseInt m None) (Num 0) = Num b"
    using js_or_parseInt_Num by metis
  then show ?thesis by (simp add: parseHM_def)
qed

lemma trips_unknown_payYear:
  assumes "truthy (t ''payYear'')" and "js_get PAY_RATES (t ''payYear'') = Absent"
  shows "basePay_str (calculateTripPay_trips t) = Formatted (Num 0)"
proof -
  obtain x where x: "parseHM_radix10 (t ''creditedHoursHours'') (t ''creditedHoursMinutes'') = Num x"
    using parseHM_radix10_Num by blast
  have "basePay_str (calculateTripPay_trips t) =
      Formatted (js_mul (parseHM_radix10 (t ''creditedHoursHours'') (t ''creditedHoursMinutes''))
                   (Num 0))"
    unfolding calculateTripPay_trips_def Let_def parseHM_radix10_def using assms
    by (simp add: val_or_def split del: if_split cong del: if_weak_cong)
  then show ?thesis by (simp add: x)
qed

text \<open>
  C5 (amended). A trip whose pay year is missing (falsy: absent, empty, \<open>null\<close> or
  \<open>false\<close>) gets, from each of the three calculators, the same result as the identical
  trip with pay year \<open>'Year 1'\<close>. For a pay year that is present but is neither a key of
  the pay table nor a member inherited from \<open>Object.prototype\<close>, the three differ:
  \<open>script.js\<close> returns the result for \<open>'Year 1'\<close>, the second monolithic script returns
  the zeroed default calculation, and \<open>trips.js\<close> uses base rate 0, so its base pay is 0.
\<close>

theorem pay_year_fallback:
  "(\<not> truthy (t ''payYear'') \<longrightarrow>
      calculateTripPay_script t = calculateTripPay_script (t(''payYear'' := JStr ''Year 1''))
      \<and> calculateTripPay_monolith t = calculateTripPay_monolith (t(''payYear'' := JStr ''Year 1''))
      \<and> calculateTripPay_trips t = calculateTripPay_trips (t(''payYear'' := JStr ''Year 1'')))
   \<and> (truthy (t ''payYear'') \<and> js_get PAY_RATES (t ''payYear'') = Absent \<longrightarrow>
        calculateTripPay_script t = calculateTripPay_script (t(''payYear'' := JStr ''Year 1''))
        \<and> calculateTripPay_monolith t = createDefaultCalculation
        \<and> basePay_str (calculateTripPay_trips t) = Formatted (Num 0))"
  using script_missing_payYear [of t] monolith_missing_payYear [of t] trips_missing_payYear [of t]
    script_unknown_payYear [of t] monolith_unknown_payYear [of t] trips_unknown_payYear [of t]
  by (simp add: masterPayData_def)

lemma tripYear_facts:
  "\<not> truthy (tripNoYear ''payYear'')"
  "truthy (tripUnknownYear ''payYear'')"
  "js_get PAY_RATES (tripUnknownYear ''payYear'') = Absent"
  by (simp_all add: tripNoYear_def tripUnknownYear_def object_def js_get_def PAY_RATES_def
        objectPrototypeKeys_def)

lemma tripYear_values:
  "totalGrossPay (calculateTripPay_script (tripNoYear(''payYear'' := JStr ''Year 1''))) =
     Num (31760 / 100)"
  "totalGrossPay (calculateTripPay_script (tripUnknownYear(''payYear'' := JStr ''Year 1''))) =
     Num (31960 / 100)"
  by (simp_all add: tripNoYear_def tripUnknownYear_def script_defs eval_defs parse_defs)

theorem pay_year_fallback_witness:
  "\<not> truthy (tripNoYear ''payYear'')
   \<and> totalGrossPay (calculateTripPay_script tripNoYear) = Num (31760 / 100)
   \<and> calculateTripPay_monolith tripNoYear =
       calculateTripPay_monolith (tripNoYear(''payYear'' := JStr ''Year 1''))
   \<and> calculateTripPay_trips tripNoYear =
       calculateTripPay_trips (tripNoYear(''payYear'' := JStr ''Year 1''))
   \<and> truthy (tripUnknownYear ''payYear'')
   \<and> js_get PAY_RATES (tripUnknownYear ''payYear'') = Absent
   \<and> totalGrossPay (calculateTripPay_script tripUnknownYear) = Num (31960 / 100)
   \<and> calculateTripPay_monolith tripUnknownYear = createDefaultCalculation
   \<and> basePay_str (calculateTripPay_trips tripUnknownYear) = Formatted (Num 0)"
  using pay_year_fallback [of tripNoYear] pay_year_fallback [of tripUnknownYear]
    tripYear_facts tripYear_values
  by simp

text \<open>
  For the pay year \<open>'Year 14'\<close> the second monolithic script returns the zeroed default,
  not the result it returns for the same trip with pay year \<open>'Year 1'\<close>.
\<close>

theorem pay_year_monolith_counterexample:
  "js_get masterPayData (tripUnknownYear ''payYear'') = Absent
   \<and> totalGrossPay (calculateTripPay_monolith tripUnknownYear) = Num 0
   \<and> totalGrossPay (calculateTripPay_monolith (tripUnknownYear(''payYear'' := JStr ''Year 1''))) =
       Num (31960 / 100)"
  by (simp add: tripUnknownYear_def monolith_defs eval_defs parse_defs)

section \<open>Galley pay\<close>

lemma galleyPay_script:
  assumes "purserPayStatement t = Inr a"
  shows "galleyPay (calculateTripPay_script t) =
     (if t ''galleyPay'' = JStr ''Yes''
      then js_mul (parseHM (t ''galleyHoursHours'') (t ''galleyHoursMinutes'')) (Num 1)
      else Num 0)"
proof -
  obtain x where "parseHM (t ''galleyHoursHours'') (t ''galleyHoursMinutes'') = Num x"
    using parseHM_Num by blast
  then show ?thesis
    unfolding calculateTripPay_script_def calculateTripPay_try_def Let_def using assms
    by simp
qed

lemma galleyPay_monolith:
  assumes "js_get masterPayData (val_or (t ''payYear'') (JStr ''Year 1'')) \<noteq> Absent"
  shows "galleyPay (calculateTripPay_monolith t) =
     (if t ''galleyPay'' = JStr ''Yes''
      then js_mul (parseHM_radix10 (t ''galleyHoursHours'') (t ''galleyHoursMinutes'')) (Num 1)
      else Num 0)"
  unfolding calculateTripPay_monolith_def Let_def parseHM_radix10_def using assms
  by simp

lemma galleyPay_trips:
  "amount (galleyPay_str (calculateTripPay_trips t)) =
     (if truthy (t ''galleyPay'')
      then js_mul (parseHM_radix10 (t ''galleyHoursHours'') (t ''galleyHoursMinutes''))
             (Num GALLEY_RATE)
      else Num 0)"
  unfolding calculateTripPay_trips_def Let_def parseHM_radix10_def
  by simp

lemma galleyPay_disabled:
  "t ''galleyPay'' \<noteq> JStr ''Yes'' \<Longrightarrow> galleyPay (calculateTripPay_script t) = Num 0"
  "t ''galleyPay'' \<noteq> JStr ''Yes'' \<Longrightarrow> galleyPay (calculateTripPay_monolith t) = Num 0"
proof -
  assume d: "t ''galleyPay'' \<noteq> JStr ''Yes''"
  show "galleyPay (calculateTripPay_script t) = Num 0"
  proof (cases "purserPayStatement t")
    case (Inl e)
    then show ?thesis by (simp add: script_catch catchCalculation_def)
  next
    case (Inr a)
    then show ?thesis using d by (simp add: galleyPay_script)
  qed
  show "galleyPay (calculateTripPay_monolith t) = Num 0"
  proof (cases "js_get masterPayData (val_or (t ''payYear'') (JStr ''Year 1'')) = Absent")
    case True
    then show ?thesis by (simp add: monolith_default createDefaultCalculation_def)
  next
    case False
    then show ?thesis using d by (simp add: galleyPay_monolith)
  qed
qed

text \<open>
  C6 (amended). When the calculation is not replaced by the zeroed result (no exception
  in \<open>script.js\<close>, a pay year that resolves in the second monolithic script), both
  monolithic calculators return \<open>galleyPay\<close> = galley hours times 1 when the galley toggle
  is \<open>'Yes'\<close>; \<open>trips.js\<close> returns galley hours times \<open>GALLEY_RATE\<close> when its galley flag
  is truthy. All three return 0 when galley pay is off.
\<close>

theorem galley_pay_hours_times_rate:
  "((\<exists>a. purserPayStatement t = Inr a) \<and> t ''galleyPay'' = JStr ''Yes'' \<longrightarrow>
      galleyPay (calculateTripPay_script t) =
        js_mul (parseHM (t ''galleyHoursHours'') (t ''galleyHoursMinutes'')) (Num 1))
   \<and> (js_get masterPayData (val_or (t ''payYear'') (JStr ''Year 1'')) \<noteq> Absent
        \<and> t ''galleyPay'' = JStr ''Yes'' \<longrightarrow>
      galleyPay (calculateTripPay_monolith t) =
        js_mul (parseHM_radix10 (t ''galleyHoursHours'') (t ''galleyHoursMinutes'')) (Num 1))
   \<and> (truthy (t ''galleyPay'') \<longrightarrow>
      amount (galleyPay_str (calculateTripPay_trips t)) =
        js_mul (parseHM_radix10 (t ''galleyHoursHours'') (t ''galleyHoursMinutes''))
          (Num GALLEY_RATE))
   \<and> (t ''galleyPay'' \<noteq> JStr ''Yes'' \<longrightarrow>
        galleyPay (calculateTripPay_script t) = Num 0
        \<and> galleyPay (calculateTripPay_monolith t) = Num 0)
   \<and> (\<not> truthy (t ''galleyPay'') \<longrightarrow>
        amount (galleyPay_str (calculateTripPay_trips t)) = Num 0)"
  using galleyPay_script [of t] galleyPay_monolith [of t] galleyPay_disabled [of t]
  by (auto simp: galleyPay_trips)

lemma tripGalley_facts:
  "purserPayStatement tripGalley = Inr (Num 0)"
  "js_get masterPayData (val_or (tripGalley ''payYear'') (JStr ''Year 1'')) \<noteq> Absent"
  "tripGalley ''galleyPay'' = JStr ''Yes''"
  "truthy (tripGalley ''galleyPay'')"
  "parseHM (tripGalley ''galleyHoursHours'') (tripGalley ''galleyHoursMinutes'') = Num 2"
  "parseHM_radix10 (tripGalley ''galleyHoursHours'') (tripGalley ''galleyHoursMinutes'') = Num 2"
  by (simp_all add: tripGalley_def tripUnknownYear_def parseHM_radix10_def eval_defs parse_defs)

theorem galley_pay_hours_times_rate_witness:
  "purserPayStatement tripGalley = Inr (Num 0)
   \<and> js_get masterPayData (val_or (tripGalley ''payYear'') (JStr ''Year 1'')) \<noteq> Absent
   \<and> tripGalley ''galleyPay'' = JStr ''Yes''
   \<and> parseHM (tripGalley ''galleyHoursHours'') (tripGalley ''galleyHoursMinutes'') = Num 2
   \<and> galleyPay (calculateTripPay_script tripGalley) = Num 2
   \<and> galleyPay (calculateTripPay_monolith tripGalley) = Num 2
   \<and> amount (galleyPay_str (calculateTripPay_trips tripGalley)) = Num 5
   \<and> tripZeroLength ''galleyPay'' \<noteq> JStr ''Yes''
   \<and> galleyPay (calculateTripPay_script tripZeroLength) = Num 0
   \<and> galleyPay (calculateTripPay_monolith tripZeroLength) = Num 0
   \<and> amount (galleyPay_str (calculateTripPay_trips tripZeroLength)) = Num 0"
proof -
  have z: "tripZeroLength ''galleyPay'' \<noteq> JStr ''Yes''" "\<not> truthy (tripZeroLength ''galleyPay'')"
    by (simp_all add: tripZeroLength_def object_def)
  show ?thesis
    using galley_pay_hours_times_rate [of tripGalley] galley_pay_hours_times_rate [of tripZeroLength]
      tripGalley_facts z
    by (simp add: GALLEY_RATE_def)
qed

text \<open>
  With galley pay on and two galley hours, the second monolithic script returns galley
  pay 0 for pay year \<open>'Year 14'\<close> (the zeroed default) and 2 for pay year \<open>'Year 1'\<close>: no
  single rate gives both, and neither is two hours at the \<open>GALLEY_RATE\<close> of \<open>config.js\<close>.
\<close>

theorem galley_pay_monolith_counterexample:
  "tripUnknownYear ''galleyPay'' = JStr ''Yes''
   \<and> parseHM_radix10 (tripUnknownYear ''galleyHoursHours'')
        (tripUnknownYear ''galleyHoursMinutes'') = Num 2
   \<and> galleyPay (calculateTripPay_monolith tripUnknownYear) = Num 0
   \<and> tripGalley ''galleyPay'' = JStr ''Yes''
   \<and> parseHM_radix10 (tripGalley ''galleyHoursHours'') (tripGalley ''galleyHoursMinutes'') = Num 2
   \<and> galleyPay (calculateTripPay_monolith tripGalley) = Num 2
   \<and> js_mul (Num 2) (Num GALLEY_RATE) = Num 5"
  by (simp add: tripGalley_def tripUnknownYear_def parseHM_radix10_def monolith_defs eval_defs
        parse_defs)

section \<open>Non-negative components\<close>

lemma withinBoundE: "withinBound b x \<Longrightarrow> \<exists>r. x = Num r \<and> 0 \<le> r \<and> r \<le> b"
  by (cases x) simp_all

lemma wb_or:
  "withinBoundOrNaN b x \<Longrightarrow> 0 \<le> d \<Longrightarrow> d \<le> b \<Longrightarrow> withinBound b (js_or x (Num d))"
  by (cases x) (simp_all add: js_or_def num_truthy_def)

lemma wb_hm:
  assumes "withinBoundOrNaN b h" and "withinBoundOrNaN b m" and "0 \<le> b"
  shows "withinBound (b + b / 60) (js_add (js_or h (Num 0)) (js_div (js_or m (Num 0)) (Num 60)))"
proof -
  from wb_or [OF assms(1), of 0] assms(3) obtain x where
    x: "js_or h (Num 0) = Num x" "0 \<le> x" "x \<le> b" using withinBoundE by blast
  from wb_or [OF assms(2), of 0] assms(3) obtain y where
    y: "js_or m (Num 0) = Num y" "0 \<le> y" "y \<le> b" using withinBoundE by blast
  from x y show ?thesis by (simp add: add_mono divide_right_mono)
qed

text \<open>
  Decimal hours made from whole hours and whole minutes are a multiple of \<open>1 / 60\<close>:
  when they are above 0, they are at least \<open>1 / 60\<close>.
\<close>

lemma hm_positive:
  assumes "js_add (js_or (parseInt h r) (Num 0)) (js_div (js_or (parseInt m r) (Num 0)) (Num 60)) = Num d"
    and "0 < d"
  shows "1 / 60 \<le> d"
proof -
  obtain x where x: "js_or (parseInt h r) (Num 0) = Num x" using js_or_parseInt_Num by blast
  obtain y where y: "js_or (parseInt m r) (Num 0) = Num y" using js_or_parseInt_Num by blast
  have "\<exists>i::int. x = of_int i"
  proof (cases "num_truthy (parseInt h r)")
    case True
    with x have "parseInt h r = Num x" by (simp add: js_or_def)
    then show ?thesis by (rule parseInt_integer)
  next
    case False
    with x have "x = 0" by (simp add: js_or_def)
    then show ?thesis by (intro exI [of _ 0]) simp
  qed
  then obtain i :: int where i: "x = of_int i" ..
  have "\<exists>j::int. y = of_int j"
  proof (cases "num_truthy (parseInt m r)")
    case True
    with y have "parseInt m r = Num y" by (simp add: js_or_def)
    then show ?thesis by (rule parseInt_integer)
  next
    case False
    with y have "y = 0" by (simp add: js_or_def)
    then show ?thesis by (intro exI [of _ 0]) simp
  qed
  then obtain j :: int where j: "y = of_int j" ..
  from assms(1) x y have d: "d = x + y / 60" by simp
  then have "d * 60 = of_int (60 * i + j)" using i j by simp
  moreover from assms(2) have "0 < d * 60" by simp
  ultimately have "0 < (of_int (60 * i + j) :: real)" by simp
  then have "1 \<le> 60 * i + j" by linarith
  then have "(1 :: real) \<le> of_int (60 * i + j)" by linarith
  then have "1 \<le> d * 60" using \<open>d * 60 = of_int (60 * i + j)\<close> by simp
  then show ?thesis by simp
qed

lemma wb_mul: "withinBound a x \<Longrightarrow> withinBound b y \<Longrightarrow> withinBound (a * b) (js_mul x y)"
  by (cases x; cases y) (simp_all add: mult_mono)

lemma wb_add: "withinBound a x \<Longrightarrow> withinBound b y \<Longrightarrow> withinBound (a + b) (js_add x y)"
  by (cases x; cases y) (simp_all add: add_mono)

lemma wb_mono: "withinBound a x \<Longrightarrow> a \<le> b \<Longrightarrow> withinBound b x"
  by (cases x) simp_all

lemma PAY_RATES_bounds: "js_get PAY_RATES k = Own e \<Longrightarrow> 0 \<le> fst e \<and> fst e \<le> 100"
  by (auto simp: js_get_def PAY_RATES_def split: if_splits)

lemma wb_baseRate:
  "js_get PAY_RATES k \<noteq> Inherited \<Longrightarrow>
     withinBound 100 (ToNumber (baseRate_of (prop_or (js_get PAY_RATES k) (js_get PAY_RATES (JStr ''Year 1'')))))"
  using PAY_RATES_bounds [of k]
  by (cases "js_get PAY_RATES k") (simp_all add: prop_or_def Year1_own)

lemma rates_bounds: "js_get rates k = Own (a, b) \<Longrightarrow> 0 \<le> a \<and> a \<le> 4 \<and> 0 \<le> b \<and> b \<le> 4"
  by (auto simp: js_get_def rates_def split: if_splits)

lemma wb_purserPayStatement:
  assumes "withinBoundOrNaN 1000000 (parseFloat (t ''purserUSHours''))"
    and "withinBoundOrNaN 1000000 (parseFloat (t ''purserNonUSHours''))"
    and "purserPayStatement t = Inr a"
  shows "withinBound 8000000 a"
proof (cases "t ''purserPay'' = JStr ''Yes''")
  case False
  with assms(3) show ?thesis by (auto simp: purserPayStatement_def)
next
  case True
  from assms(3) True obtain u n where
    r: "prop_or (js_get rates (t ''aircraftType'')) (js_get rates (JStr ''Narrow1'')) = Own (u, n)"
    and a: "a = js_add (js_mul (js_or (parseFloat (t ''purserUSHours'')) (Num 0)) (Num u))
                  (js_mul (js_or (parseFloat (t ''purserNonUSHours'')) (Num 0)) (Num n))"
    by (auto simp: purserPayStatement_def Let_def split: member.splits)
  have "0 \<le> u \<and> u \<le> 4 \<and> 0 \<le> n \<and> n \<le> 4"
  proof (cases "js_get rates (t ''aircraftType'')")
    case (Own e)
    then show ?thesis using r rates_bounds [of "t ''aircraftType''" u n] by (simp add: prop_or_def)
  next
    case Inherited
    then show ?thesis using r by (simp add: prop_or_def)
  next
    case Absent
    then show ?thesis using r rates_bounds [of "JStr ''Narrow1''" u n] by (simp add: prop_or_def)
  qed
  then have u: "withinBound 4 (Num u)" and n: "withinBound 4 (Num n)" by simp_all
  have "withinBound (1000000 * 4 + 1000000 * 4) a"
    unfolding a using assms(1,2) u n by (intro wb_add wb_mul wb_or) simp_all
  then show ?thesis by (rule wb_mono) simp
qed

lemma wb_flagMultiplier:
  "withinBoundOrNaN 1000000 p \<Longrightarrow>
     withinBound 1500000 (js_mul (if w then Num (15 / 10) else Num 1)
                    (if q then js_or p (Num (15 / 10)) else Num 1))"
  by (cases p) (simp_all add: js_or_def num_truthy_def)

text \<open>Bounds of the products and the quotient of the two calculators.\<close>

lemma pay_bounds:
  fixes c d e h :: real
  assumes "0 \<le> c" "c \<le> 1100000" "0 \<le> e" "e \<le> 150000000" "0 \<le> h" "h \<le> 1000000"
  shows "0 \<le> c * e" and "c * e \<le> 10 ^ 24"
    and "1 / 60 \<le> d \<Longrightarrow> 0 \<le> e * c / d * h \<and> e * c / d * h \<le> 10 ^ 24"
proof -
  show 0: "0 \<le> c * e" using assms by simp
  have ce: "c * e \<le> 1100000 * 150000000" using assms by (intro mult_mono) simp_all
  then show "c * e \<le> 10 ^ 24" by simp
  assume d: "1 / 60 \<le> d"
  then have dp: "0 < d" by simp
  have "e * c / d \<le> (1100000 * 150000000) / (1 / 60)"
    using 0 ce d by (intro frac_le) (simp_all add: mult.commute)
  moreover have q: "0 \<le> e * c / d" using assms dp by simp
  ultimately have "e * c / d * h \<le> (1100000 * 150000000) / (1 / 60) * 1000000"
    using assms by (intro mult_mono) simp_all
  then have "e * c / d * h \<le> 10 ^ 24" by simp
  moreover have "0 \<le> e * c / d * h" using q assms(5) by (rule mult_nonneg_nonneg)
  ultimately show "0 \<le> e * c / d * h \<and> e * c / d * h \<le> 10 ^ 24" by simp
qed

lemma script_within:
  assumes i: "inputsWithin 1000000 None t"
    and y: "js_get PAY_RATES (val_or (t ''payYear'') (JStr ''Year 1'')) \<noteq> Inherited"
  shows "componentsWithin (10 ^ 24) (calculateTripPay_script t)"
proof (cases "purserPayStatement t")
  case (Inl e)
  then show ?thesis by (simp add: script_catch catchCalculation_def componentsWithin_def)
next
  case (Inr a)
  have hm: "withinBound (1000000 + 1000000 / 60) (parseHM (t h) (t m))"
    if "withinBoundOrNaN 1000000 (parseInt (t h) None)"
      and "withinBoundOrNaN 1000000 (parseInt (t m) None)" for h m
    unfolding parseHM_def Let_def using that by (intro wb_hm) simp_all
  from i hm [of "''creditedHoursHours''" "''creditedHoursMinutes''"] obtain c where
    c: "parseHM (t ''creditedHoursHours'') (t ''creditedHoursMinutes'') = Num c"
      "0 \<le> c" "c \<le> 1000000 + 1000000 / 60"
    unfolding inputsWithin_def using withinBoundE by blast
  from i hm [of "''tafbHours''" "''tafbMinutes''"] obtain d where
    d: "parseHM (t ''tafbHours'') (t ''tafbMinutes'') = Num d"
      "0 \<le> d" "d \<le> 1000000 + 1000000 / 60"
    unfolding inputsWithin_def using withinBoundE by blast
  from i hm [of "''galleyHoursHours''" "''galleyHoursMinutes''"] obtain g where
    g: "parseHM (t ''galleyHoursHours'') (t ''galleyHoursMinutes'') = Num g"
      "0 \<le> g" "g \<le> 1000000 + 1000000 / 60"
    unfolding inputsWithin_def using withinBoundE by blast
  from i have "withinBound 1000000 (js_or (parseFloat (t ''holidayHours'')) (Num 0))"
    unfolding inputsWithin_def by (intro wb_or) simp_all
  then obtain h where
    h: "js_or (parseFloat (t ''holidayHours'')) (Num 0) = Num h" "0 \<le> h" "h \<le> 1000000"
    using withinBoundE by blast
  from i Inr have "withinBound 8000000 a"
    by (intro wb_purserPayStatement [of t a]) (simp_all add: inputsWithin_def)
  then obtain p where p: "a = Num p" "0 \<le> p" "p \<le> 8000000" using withinBoundE by blast
  from i have pp: "withinBoundOrNaN 1000000 (parseFloat (t ''purpleFlagPremium''))"
    by (simp add: inputsWithin_def)
  have "withinBound (100 * 1500000) (js_mul (ToNumber (baseRate_of (prop_or
              (js_get PAY_RATES (val_or (t ''payYear'') (JStr ''Year 1'')))
              (js_get PAY_RATES (JStr ''Year 1'')))))
            (js_mul (if truthy (t ''whiteFlag'') then Num (15 / 10) else Num 1)
               (if truthy (t ''purpleFlag'')
                then js_or (parseFloat (t ''purpleFlagPremium'')) (Num (15 / 10)) else Num 1)))"
    using y pp by (intro wb_mul wb_baseRate wb_flagMultiplier)
  then obtain e where
    e: "js_mul (ToNumber (baseRate_of (prop_or
              (js_get PAY_RATES (val_or (t ''payYear'') (JStr ''Year 1'')))
              (js_get PAY_RATES (JStr ''Year 1'')))))
            (js_mul (if truthy (t ''whiteFlag'') then Num (15 / 10) else Num 1)
               (if truthy (t ''purpleFlag'')
                then js_or (parseFloat (t ''purpleFlagPremium'')) (Num (15 / 10)) else Num 1))
         = Num e" "0 \<le> e" "e \<le> 100 * 1500000"
    using withinBoundE by blast
  have dl: "1 / 60 \<le> d" if "0 < d"
    using d(1) that unfolding parseHM_def Let_def by (rule hm_positive)
  have c': "c \<le> 1100000" and d': "d \<le> 1100000" and g': "g \<le> 10 ^ 24" and e': "e \<le> 150000000"
    and p': "p \<le> 10 ^ 24"
    using c(3) d(3) g(3) e(3) p(3) by simp_all
  note b = pay_bounds [OF c(2) c' e(2) e' h(2) h(3)]
  have l: "c * (250 / 100) \<le> 10 ^ 24" "c * 2 \<le> 10 ^ 24"
    "d * INTERNATIONAL_PER_DIEM \<le> 10 ^ 24" "d * DOMESTIC_PER_DIEM \<le> 10 ^ 24"
    "0 \<le> d * INTERNATIONAL_PER_DIEM" "0 \<le> d * DOMESTIC_PER_DIEM"
    using c' d' c(2) d(2) by (simp_all add: INTERNATIONAL_PER_DIEM_def DOMESTIC_PER_DIEM_def)
  show ?thesis
    unfolding calculateTripPay_script_def calculateTripPay_try_def Let_def componentsWithin_def
    using Inr c(1,2) d(1,2) g(1,2) h(1) p(1,2) e(1) b(1,2) b(3) [OF dl] g' p' l
    by simp
qed

lemma basePay_monolith:
  assumes "js_get masterPayData (val_or (t ''payYear'') (JStr ''Year 1'')) \<noteq> Absent"
  shows "basePay (calculateTripPay_monolith t) =
     js_mul (parseHM_radix10 (t ''creditedHoursHours'') (t ''creditedHoursMinutes''))
       (effectiveRate (calculateTripPay_monolith t))"
  unfolding calculateTripPay_monolith_def Let_def parseHM_radix10_def using assms
  by (simp split del: if_split cong del: if_weak_cong)

lemma holidayPay_monolith_formula:
  assumes "js_get masterPayData (val_or (t ''payYear'') (JStr ''Year 1'')) \<noteq> Absent"
  shows "holidayPay (calculateTripPay_monolith t) =
     (if t ''holidayPay'' = JStr ''Yes''
         \<and> js_gt (parseHM_radix10 (t ''tafbHours'') (t ''tafbMinutes'')) (Num 0)
      then js_mul (js_div (js_mul (effectiveRate (calculateTripPay_monolith t))
                     (parseHM_radix10 (t ''creditedHoursHours'') (t ''creditedHoursMinutes'')))
                   (parseHM_radix10 (t ''tafbHours'') (t ''tafbMinutes'')))
             (js_or (parseFloat (t ''holidayHours'')) (Num 0))
      else Num 0)"
  unfolding calculateTripPay_monolith_def Let_def parseHM_radix10_def using assms
  by (simp split del: if_split cong del: if_weak_cong cong: if_cong)

lemma monolith_within:
  assumes i: "inputsWithin 1000000 (Some 10) t"
    and y: "js_get masterPayData (val_or (t ''payYear'') (JStr ''Year 1'')) \<noteq> Inherited"
  shows "componentsWithin (10 ^ 24) (calculateTripPay_monolith t)"
proof (cases "js_get masterPayData (val_or (t ''payYear'') (JStr ''Year 1'')) = Absent")
  case True
  then show ?thesis
    by (simp add: monolith_default createDefaultCalculation_def componentsWithin_def)
next
  case False
  let ?M = "calculateTripPay_monolith t"
  have hm: "withinBound (1000000 + 1000000 / 60) (parseHM_radix10 (t h) (t m))"
    if "withinBoundOrNaN 1000000 (parseInt (t h) (Some 10))"
      and "withinBoundOrNaN 1000000 (parseInt (t m) (Some 10))" for h m
    unfolding parseHM_radix10_def using that by (intro wb_hm) simp_all
  from i hm [of "''creditedHoursHours''" "''creditedHoursMinutes''"] obtain c where
    c: "parseHM_radix10 (t ''creditedHoursHours'') (t ''creditedHoursMinutes'') = Num c"
      "0 \<le> c" "c \<le> 1000000 + 1000000 / 60"
    unfolding inputsWithin_def using withinBoundE by blast
  from i hm [of "''tafbHours''" "''tafbMinutes''"] obtain d where
    d: "parseHM_radix10 (t ''tafbHours'') (t ''tafbMinutes'') = Num d"
      "0 \<le> d" "d \<le> 1000000 + 1000000 / 60"
    unfolding inputsWithin_def using withinBoundE by blast
  from i hm [of "''galleyHoursHours''" "''galleyHoursMinutes''"] obtain g where
    g: "parseHM_radix10 (t ''galleyHoursHours'') (t ''galleyHoursMinutes'') = Num g"
      "0 \<le> g" "g \<le> 1000000 + 1000000 / 60"
    unfolding inputsWithin_def using withinBoundE by blast
  from i have "withinBound 1000000 (js_or (parseFloat (t ''holidayHours'')) (Num 0))"
    unfolding inputsWithin_def by (intro wb_or) simp_all
  then obtain h where
    h: "js_or (parseFloat (t ''holidayHours'')) (Num 0) = Num h" "0 \<le> h" "h \<le> 1000000"
    using withinBoundE by blast
  from i have "withinBound 1000000 (js_or (parseFloat (t ''purserUSHours'')) (Num 0))"
    unfolding inputsWithin_def by (intro wb_or) simp_all
  then obtain us where
    us: "js_or (parseFloat (t ''purserUSHours'')) (Num 0) = Num us" "0 \<le> us" "us \<le> 1000000"
    using withinBoundE by blast
  from i have "withinBound 1000000 (js_or (parseFloat (t ''purserNonUSHours'')) (Num 0))"
    unfolding inputsWithin_def by (intro wb_or) simp_all
  then obtain nu where
    nu: "js_or (parseFloat (t ''purserNonUSHours'')) (Num 0) = Num nu" "0 \<le> nu" "nu \<le> 1000000"
    using withinBoundE by blast
  from i have pp: "withinBoundOrNaN 1000000 (parseFloat (t ''purpleFlagPremium''))"
    by (simp add: inputsWithin_def)
  from False y obtain b f where
    own: "js_get masterPayData (val_or (t ''payYear'') (JStr ''Year 1'')) = Own (b, f)"
    by (cases "js_get masterPayData (val_or (t ''payYear'') (JStr ''Year 1''))") auto
  then have b: "withinBound 100 (Num b)"
    using PAY_RATES_bounds [of _ "(b, f)"] by (simp add: masterPayData_def)
  have er: "effectiveRate ?M =
        js_mul (Num b)
          (js_mul (if t ''whiteFlag'' = JBool True \<or> t ''whiteFlag'' = JStr ''Yes''
                   then Num (15 / 10) else Num 1)
                  (if t ''purpleFlag'' = JBool True \<or> t ''purpleFlag'' = JStr ''Yes''
                   then js_or (parseFloat (t ''purpleFlagPremium'')) (Num (15 / 10)) else Num 1))"
    using effectiveRate_monolith [of t b f] own by blast
  have "withinBound (100 * 1500000) (effectiveRate ?M)"
    unfolding er using b pp by (intro wb_mul wb_flagMultiplier)
  then obtain e where e: "effectiveRate ?M = Num e" "0 \<le> e" "e \<le> 100 * 1500000"
    using withinBoundE by blast
  have dl: "1 / 60 \<le> d" if "0 < d"
    using d(1) that unfolding parseHM_radix10_def by (rule hm_positive)
  have c': "c \<le> 1100000" and d': "d \<le> 1100000" and g': "g \<le> 10 ^ 24" and e': "e \<le> 150000000"
    using c(3) d(3) g(3) e(3) by simp_all
  note pb = pay_bounds [OF c(2) c' e(2) e' h(2) h(3)]
  have 1: "withinBound (10 ^ 24) (basePay ?M)"
    unfolding basePay_monolith [of t, OF False] c(1) e(1) using pb(1,2) by simp
  have 2: "withinBound (10 ^ 24) (galleyPay ?M)"
    unfolding galleyPay_monolith [of t, OF False] g(1) using g(2) g' by simp
  have 3: "withinBound (10 ^ 24) (purserPay ?M)"
    unfolding calculateTripPay_monolith_def Let_def using False us nu by simp
  have 4: "withinBound (10 ^ 24) (intlOverridePay ?M)"
    unfolding calculateTripPay_monolith_def Let_def
    using False c(1,2) c' [unfolded parseHM_radix10_def] c(1) [unfolded parseHM_radix10_def]
    by simp
  have 5: "withinBound (10 ^ 24) (languagePay ?M)"
    unfolding calculateTripPay_monolith_def Let_def
    using False c(2) c' c(1) [unfolded parseHM_radix10_def]
    by simp
  have 6: "withinBound (10 ^ 24) (perDiem ?M)"
    unfolding calculateTripPay_monolith_def Let_def
    using False d(2) d' d(1) [unfolded parseHM_radix10_def]
    by (simp add: DOMESTIC_PER_DIEM_RATE_def INTERNATIONAL_PER_DIEM_RATE_def)
  have 7: "withinBound (10 ^ 24) (holidayPay ?M)"
    unfolding holidayPay_monolith_formula [of t, OF False] c(1) d(1) e(1) h(1)
    using pb(3) [OF dl] by simp
  from 1 2 3 4 5 6 7 show ?thesis unfolding componentsWithin_def by simp
qed

lemma componentsWithin_nonNegative: "componentsWithin b c \<Longrightarrow> nonNegativeComponents c"
proof -
  have "withinBound b x \<Longrightarrow> nonNegative x" for x by (cases x) simp_all
  then show "componentsWithin b c \<Longrightarrow> nonNegativeComponents c"
    unfolding componentsWithin_def nonNegativeComponents_def by blast
qed

lemma script_disabled:
  "(t ''purserPay'' \<noteq> JStr ''Yes'' \<longrightarrow> purserPay (calculateTripPay_script t) = Num 0)
   \<and> (t ''languagePay'' \<noteq> JStr ''Yes'' \<longrightarrow> languagePay (calculateTripPay_script t) = Num 0)
   \<and> (t ''intlPayOverride'' \<noteq> JStr ''Yes'' \<longrightarrow>
        intlOverridePay (calculateTripPay_script t) = Num 0)
   \<and> (t ''holidayPay'' \<noteq> JStr ''Yes'' \<longrightarrow> holidayPay (calculateTripPay_script t) = Num 0)"
proof (cases "purserPayStatement t")
  case (Inl e)
  then show ?thesis by (simp add: script_catch catchCalculation_def)
next
  case (Inr a)
  then have "t ''purserPay'' \<noteq> JStr ''Yes'' \<longrightarrow> a = Num 0"
    by (auto simp: purserPayStatement_def)
  then show ?thesis
    unfolding calculateTripPay_script_def calculateTripPay_try_def Let_def using Inr
    by simp
qed

lemma monolith_disabled:
  "(t ''purserPay'' \<noteq> JStr ''Yes'' \<longrightarrow> purserPay (calculateTripPay_monolith t) = Num 0)
   \<and> (t ''languagePay'' \<noteq> JStr ''Yes'' \<longrightarrow> languagePay (calculateTripPay_monolith t) = Num 0)
   \<and> (t ''intlPayOverride'' \<noteq> JStr ''Yes'' \<longrightarrow>
        intlOverridePay (calculateTripPay_monolith t) = Num 0)
   \<and> (t ''holidayPay'' \<noteq> JStr ''Yes'' \<longrightarrow> holidayPay (calculateTripPay_monolith t) = Num 0)"
proof (cases "js_get masterPayData (val_or (t ''payYear'') (JStr ''Year 1'')) = Absent")
  case True
  then show ?thesis by (simp add: monolith_default createDefaultCalculation_def)
next
  case False
  then show ?thesis
    unfolding calculateTripPay_monolith_def Let_def
    by simp
qed

text \<open>
  C9 (amended). When the numeric fields of a trip that enter the component pays parse to
  numbers from 0 up to 1000000 (or do not parse) and the pay year is not the name of a
  member inherited from \<open>Object.prototype\<close>, each of the seven component pays returned by
  the two monolithic calculators is a finite number from 0 up to \<open>10 ^ 24\<close>. For every
  trip, each of \<open>galleyPay\<close>, \<open>purserPay\<close>, \<open>languagePay\<close>, \<open>intlOverridePay\<close> and
  \<open>holidayPay\<close> is 0 when its toggle is not \<open>'Yes'\<close>.
\<close>

theorem components_non_negative:
  "(inputsWithin 1000000 None t
      \<and> js_get PAY_RATES (val_or (t ''payYear'') (JStr ''Year 1'')) \<noteq> Inherited \<longrightarrow>
      componentsWithin (10 ^ 24) (calculateTripPay_script t)
      \<and> nonNegativeComponents (calculateTripPay_script t))
   \<and> (inputsWithin 1000000 (Some 10) t
      \<and> js_get masterPayData (val_or (t ''payYear'') (JStr ''Year 1'')) \<noteq> Inherited \<longrightarrow>
      componentsWithin (10 ^ 24) (calculateTripPay_monolith t)
      \<and> nonNegativeComponents (calculateTripPay_monolith t))
   \<and> (t ''galleyPay'' \<noteq> JStr ''Yes'' \<longrightarrow>
        galleyPay (calculateTripPay_script t) = Num 0
        \<and> galleyPay (calculateTripPay_monolith t) = Num 0)
   \<and> (t ''purserPay'' \<noteq> JStr ''Yes'' \<longrightarrow>
        purserPay (calculateTripPay_script t) = Num 0
        \<and> purserPay (calculateTripPay_monolith t) = Num 0)
   \<and> (t ''languagePay'' \<noteq> JStr ''Yes'' \<longrightarrow>
        languagePay (calculateTripPay_script t) = Num 0
        \<and> languagePay (calculateTripPay_monolith t) = Num 0)
   \<and> (t ''intlPayOverride'' \<noteq> JStr ''Yes'' \<longrightarrow>
        intlOverridePay (calculateTripPay_script t) = Num 0
        \<and> intlOverridePay (calculateTripPay_monolith t) = Num 0)
   \<and> (t ''holidayPay'' \<noteq> JStr ''Yes'' \<longrightarrow>
        holidayPay (calculateTripPay_script t) = Num 0
        \<and> holidayPay (calculateTripPay_monolith t) = Num 0)"
  using script_within [of t] monolith_within [of t] galleyPay_disabled [of t]
    script_disabled [of t] monolith_disabled [of t]
    componentsWithin_nonNegative [of "10 ^ 24" "calculateTripPay_script t"]
    componentsWithin_nonNegative [of "10 ^ 24" "calculateTripPay_monolith t"]
  by simp

lemma tripGalley_inputs:
  "inputsWithin 1000000 None tripGalley"
  "inputsWithin 1000000 (Some 10) tripGalley"
  "js_get PAY_RATES (val_or (tripGalley ''payYear'') (JStr ''Year 1'')) \<noteq> Inherited"
  "tripGalley ''purserPay'' \<noteq> JStr ''Yes''"
  "tripGalley ''holidayPay'' \<noteq> JStr ''Yes''"
  by (simp_all add: inputsWithin_def tripGalley_def tripUnknownYear_def eval_defs parse_defs)

lemma tripHoliday_inputs:
  "inputsWithin 1000000 None tripHoliday"
  "inputsWithin 1000000 (Some 10) tripHoliday"
  "js_get PAY_RATES (val_or (tripHoliday ''payYear'') (JStr ''Year 1'')) \<noteq> Inherited"
  "js_gt (holidayPay (calculateTripPay_script tripHoliday)) (Num 100)"
  "js_gt (holidayPay (calculateTripPay_monolith tripHoliday)) (Num 100)"
  by (simp_all add: inputsWithin_def tripHoliday_def tripHolidayNoTafb_def script_defs
        monolith_defs eval_defs parse_defs)

theorem components_non_negative_witness:
  "inputsWithin 1000000 None tripGalley
   \<and> inputsWithin 1000000 (Some 10) tripGalley
   \<and> js_get PAY_RATES (val_or (tripGalley ''payYear'') (JStr ''Year 1'')) \<noteq> Inherited
   \<and> tripGalley ''purserPay'' \<noteq> JStr ''Yes''
   \<and> tripGalley ''holidayPay'' \<noteq> JStr ''Yes''
   \<and> componentsWithin (10 ^ 24) (calculateTripPay_script tripGalley)
   \<and> componentsWithin (10 ^ 24) (calculateTripPay_monolith tripGalley)
   \<and> nonNegativeComponents (calculateTripPay_script tripGalley)
   \<and> nonNegativeComponents (calculateTripPay_monolith tripGalley)
   \<and> purserPay (calculateTripPay_script tripGalley) = Num 0
   \<and> purserPay (calculateTripPay_monolith tripGalley) = Num 0
   \<and> holidayPay (calculateTripPay_script tripGalley) = Num 0
   \<and> holidayPay (calculateTripPay_monolith tripGalley) = Num 0
   \<and> inputsWithin 1000000 None tripHoliday
   \<and> inputsWithin 1000000 (Some 10) tripHoliday
   \<and> js_get PAY_RATES (val_or (tripHoliday ''payYear'') (JStr ''Year 1'')) \<noteq> Inherited
   \<and> js_gt (holidayPay (calculateTripPay_script tripHoliday)) (Num 100)
   \<and> js_gt (holidayPay (calculateTripPay_monolith tripHoliday)) (Num 100)
   \<and> componentsWithin (10 ^ 24) (calculateTripPay_script tripHoliday)
   \<and> componentsWithin (10 ^ 24) (calculateTripPay_monolith tripHoliday)"
  using components_non_negative [of tripGalley] components_non_negative [of tripHoliday]
    tripGalley_inputs tripHoliday_inputs
  by (simp add: masterPayData_def)

text \<open>
  With credited hours \<open>'-5'\<close> both monolithic calculators return the base pay
  \<open>-5 * 28.88 = -144.40\<close>.
\<close>

theorem negative_hours_counterexample:
  "parseInt (tripNegativeHours ''creditedHoursHours'') None = Num (- 5)
   \<and> basePay (calculateTripPay_script tripNegativeHours) = Num (- (14440 / 100))
   \<and> basePay (calculateTripPay_monolith tripNegativeHours) = Num (- (14440 / 100))
   \<and> \<not> nonNegativeComponents (calculateTripPay_script tripNegativeHours)
   \<and> \<not> nonNegativeComponents (calculateTripPay_monolith tripNegativeHours)"
  by (simp add: tripNegativeHours_def nonNegativeComponents_def script_defs monolith_defs
        eval_defs parse_defs)

section \<open>The end-to-end scenarios of the specification\<close>

text \<open>
  Scenario A (ten credited hours, twelve hours away from base, pay year 1, nothing else),
  scenario B (the same with the white flag) and scenario C (holiday pay, four holiday
  hours, ten hours away from base), computed by the second monolithic script.
\<close>

lemma scenario_A:
  "basePay (calculateTripPay_monolith tripHigh) = Num (28880 / 100)
   \<and> perDiem (calculateTripPay_monolith tripHigh) = Num (2880 / 100)
   \<and> totalGrossPay (calculateTripPay_monolith tripHigh) = Num (31760 / 100)
   \<and> netPayEstimate (calculateTripPay_monolith tripHigh) = Num (31760 / 100)
   \<and> hourlyValue (calculateTripPay_monolith tripHigh) = Num (3176 / 100)
   \<and> perDayValue (calculateTripPay_monolith tripHigh) = Num (31760 / 100)"
  by (simp add: tripHigh_def monolith_defs eval_defs parse_defs)

lemma scenario_B:
  "effectiveRate (calculateTripPay_monolith tripWhiteFlag) = Num (4332 / 100)
   \<and> basePay (calculateTripPay_monolith tripWhiteFlag) = Num (43320 / 100)
   \<and> totalGrossPay (calculateTripPay_monolith tripWhiteFlag) = Num (46200 / 100)"
  by (simp add: tripWhiteFlag_def monolith_defs eval_defs parse_defs)

lemma scenario_C:
  "holidayPay (calculateTripPay_monolith
      (tripHolidayNoTafb(''tafbHours'' := JStr ''10''))) = Num (11552 / 100)"
  by (simp add: tripHolidayNoTafb_def monolith_defs eval_defs parse_defs)

end
